theory Spec2Isabelle
  imports Complex_Main "HOL-Library.Word" "HOL-Library.Sublist"
begin

section \<open>NanoAi: the JNI bridge to llama.cpp (llama\_jni.cpp)\<close>

text \<open>
  The bridge keeps one model handle and one context handle in globals and drives the
  engine (llama.cpp) through its C interface. The engine is not part of the repository:
  it is a parameter of every definition below, a record with one field per
  \<^verbatim>\<open>llama_*\<close> function the bridge calls. The type \<open>'m\<close> stands for a loaded model,
  \<open>'c\<close> for the state of a decoding context (KV cache, scores of the last decode,
  random generator). A call that changes the context returns the new context state.

  C \<^verbatim>\<open>int\<close> values are mathematical integers here: the bridge only compares them,
  counts up to \<^verbatim>\<open>max_gen\<close> and subtracts the constant 4.
\<close>

subsection \<open>Values\<close>

text \<open>
  A \<^verbatim>\<open>float\<close> or \<^verbatim>\<open>jfloat\<close>. The bridge itself only compares floats with
  zero, so a finite value is a real number and the three special values are kept apart:
  every comparison with a NaN is false.
\<close>

datatype cfloat = Finite real | PosInf | NegInf | NaN

text \<open>\<^verbatim>\<open>x > 0\<close> and \<^verbatim>\<open>x >= 0\<close> on floats.\<close>

fun gt_zero :: "cfloat \<Rightarrow> bool" where
  "gt_zero (Finite r) = (0 < r)"
| "gt_zero PosInf = True"
| "gt_zero NegInf = False"
| "gt_zero NaN = False"

fun ge_zero :: "cfloat \<Rightarrow> bool" where
  "ge_zero (Finite r) = (0 \<le> r)"
| "ge_zero PosInf = True"
| "ge_zero NegInf = False"
| "ge_zero NaN = False"

type_synonym llama_token = int
type_synonym llama_seq_id = int

text \<open>
  A \<^verbatim>\<open>jstring\<close> is a reference: \<open>None\<close> is the null reference, \<open>Some s\<close> holds the
  bytes \<^verbatim>\<open>GetStringUTFChars\<close> yields.
\<close>

type_synonym jstring = "string option"

definition jstring_to_string :: "jstring \<Rightarrow> string" where
  "jstring_to_string jstr = (case jstr of None \<Rightarrow> [] | Some chars \<Rightarrow> chars)"

text \<open>
  \<^verbatim>\<open>string_to_jstring\<close> hands \<^verbatim>\<open>str.c_str()\<close> to \<^verbatim>\<open>NewStringUTF\<close>, which reads a C
  string: the new Java string holds the bytes of \<open>str\<close> before its first NUL byte. The
  result is the new string, given by its bytes.
\<close>

definition string_to_jstring :: "string \<Rightarrow> string" where
  "string_to_jstring str = takeWhile (\<lambda>ch. ch \<noteq> CHR 0x00) str"

text \<open>
  \<^verbatim>\<open>struct GenerationParams\<close> with its initialisers. The float literals are the
  single-precision values of \<^verbatim>\<open>0.7f\<close>, \<^verbatim>\<open>0.9f\<close> and \<^verbatim>\<open>1.1f\<close>.
\<close>

record GenerationParams =
  max_tokens :: int
  temperature :: cfloat
  top_p :: cfloat
  top_k :: int
  repeat_penalty :: cfloat
  n_threads :: int
  n_ctx :: int

definition default_GenerationParams :: GenerationParams where
  "default_GenerationParams =
     \<lparr> max_tokens = 512,
       temperature = Finite (11744051 / 16777216),
       top_p = Finite (7549747 / 8388608),
       top_k = 40,
       repeat_penalty = Finite (9227469 / 8388608),
       n_threads = 4,
       n_ctx = 2048 \<rparr>"

text \<open>
  The fields of \<^verbatim>\<open>llama_model_params\<close> and \<^verbatim>\<open>llama_context_params\<close> that the
  bridge assigns (the context fields are prefixed, \<open>n_ctx\<close> and \<open>n_threads\<close> being
  fields of the record above).
\<close>

record llama_model_params =
  use_mmap :: bool
  use_mlock :: bool

record llama_context_params =
  ctx_n_ctx :: int
  ctx_n_threads :: int
  ctx_n_threads_batch :: int
  ctx_seed :: "32 word"

text \<open>
  \<^verbatim>\<open>llama_token_data\<close> is \<^verbatim>\<open>{id, logit, p}\<close> and \<^verbatim>\<open>llama_token_data_array\<close>
  is \<^verbatim>\<open>{data, size, sorted}\<close>; \<open>size\<close> is the length of the list.
\<close>

record llama_token_data =
  id_tok :: llama_token
  logit :: cfloat
  p_tok :: cfloat

record llama_token_data_array =
  data :: "llama_token_data list"
  sorted_arr :: bool

text \<open>
  \<^verbatim>\<open>llama_batch\<close>: \<open>n_tokens\<close> slots are in use; slot \<open>i\<close> holds a token, its
  position, the sequence ids it belongs to and the flag asking for its output scores.
\<close>

record llama_batch =
  n_tokens :: nat
  token :: "llama_token list"
  pos :: "int list"
  n_seq_id :: "int list"
  seq_id :: "llama_seq_id list list"
  logits :: "bool list"

subsection \<open>The engine\<close>

text \<open>
  One field per engine function. \<open>vocab_tokenize\<close> is the engine's tokenizer proper;
  the buffer protocol of \<^verbatim>\<open>llama_tokenize\<close> is written out below.
  \<^verbatim>\<open>llama_token_to_piece\<close> returns its result code and the bytes it left in the
  buffer. \<^verbatim>\<open>llama_get_logits\<close> and \<^verbatim>\<open>llama_get_embeddings\<close> return a pointer,
  read by index; the latter may be null.
\<close>

record ('m, 'c) engine =
  llama_model_default_params :: llama_model_params
  llama_context_default_params :: llama_context_params
  llama_load_model_from_file :: "string \<Rightarrow> llama_model_params \<Rightarrow> 'm option"
  llama_new_context_with_model :: "'m \<Rightarrow> llama_context_params \<Rightarrow> 'c option"
  vocab_tokenize :: "'m \<Rightarrow> string \<Rightarrow> bool \<Rightarrow> llama_token list"
  llama_token_to_piece :: "'m \<Rightarrow> llama_token \<Rightarrow> nat \<Rightarrow> int \<times> string"
  llama_n_ctx :: "'c \<Rightarrow> int"
  llama_n_vocab :: "'m \<Rightarrow> int"
  llama_n_embd :: "'m \<Rightarrow> int"
  llama_token_eos :: "'m \<Rightarrow> llama_token"
  llama_kv_cache_clear :: "'c \<Rightarrow> 'c"
  llama_decode :: "'c \<Rightarrow> llama_batch \<Rightarrow> int \<times> 'c"
  llama_get_logits :: "'c \<Rightarrow> int \<Rightarrow> cfloat"
  llama_get_embeddings :: "'c \<Rightarrow> (int \<Rightarrow> cfloat) option"
  llama_sample_top_k :: "'c \<Rightarrow> llama_token_data_array \<Rightarrow> int \<Rightarrow> nat \<Rightarrow> llama_token_data_array \<times> 'c"
  llama_sample_top_p :: "'c \<Rightarrow> llama_token_data_array \<Rightarrow> cfloat \<Rightarrow> nat \<Rightarrow> llama_token_data_array \<times> 'c"
  llama_sample_temp :: "'c \<Rightarrow> llama_token_data_array \<Rightarrow> cfloat \<Rightarrow> llama_token_data_array \<times> 'c"
  llama_sample_token :: "'c \<Rightarrow> llama_token_data_array \<Rightarrow> llama_token \<times> 'c"

text \<open>
  Modelled from the spec: the engine's \<^verbatim>\<open>llama_tokenize\<close> (llama.h is not among the
  sources). The spec gives the engine's tokenizer as
  \<^verbatim>\<open>Tokenize(model, text, addBOS) -> tokens | negative-size-signal\<close>, a negative count
  reporting that the supplied buffer was undersized, its magnitude the size needed.
  The result is the count and the tokens written to the buffer.
\<close>

definition llama_tokenize ::
  "('m, 'c) engine \<Rightarrow> 'm \<Rightarrow> string \<Rightarrow> nat \<Rightarrow> bool \<Rightarrow> int \<times> llama_token list" where
  "llama_tokenize e m text n_max_tokens add_bos =
     (let res = vocab_tokenize e m text add_bos
      in if n_max_tokens < length res then (- int (length res), [])
         else (int (length res), res))"

subsection \<open>Global state and the record of calls\<close>

text \<open>
  The events a call of the bridge produces, in order: every write of the two atomic
  flags and every engine call that receives the model or the context handle.
  The list of events is bookkeeping of the model, not a variable of the program.
\<close>

datatype 'm event =
    EvBackendInit
  | EvLoadModel string llama_model_params
  | EvNewContext 'm llama_context_params
  | EvFree
  | EvFreeModel 'm
  | EvSetGenerating bool
  | EvSetStopRequested bool
  | EvTokenize string nat bool
  | EvTokenToPiece llama_token
  | EvNCtx
  | EvNVocab
  | EvNEmbd
  | EvTokenEos
  | EvKvCacheClear
  | EvDecode llama_batch
  | EvGetLogits
  | EvGetEmbeddings
  | EvSampleTopK int nat
  | EvSampleTopP cfloat nat
  | EvSampleTemp cfloat
  | EvSampleToken

text \<open>
  The globals \<^verbatim>\<open>g_model\<close>, \<^verbatim>\<open>g_ctx\<close> (\<open>None\<close> is \<^verbatim>\<open>nullptr\<close>; a live context
  handle is held with the state of its context), the two atomics, \<^verbatim>\<open>g_params\<close> and
  the function-local static \<^verbatim>\<open>backend_initialized\<close>.
\<close>

record ('m, 'c) session =
  g_model :: "'m option"
  g_ctx :: "'c option"
  g_is_generating :: bool
  g_stop_requested :: bool
  g_params :: GenerationParams
  backend_initialized :: bool
  trace :: "'m event list"

definition initial_session :: "('m, 'c) session" where
  "initial_session =
     \<lparr> g_model = None, g_ctx = None, g_is_generating = False, g_stop_requested = False,
       g_params = default_GenerationParams, backend_initialized = False, trace = [] \<rparr>"

definition emit :: "'m event \<Rightarrow> ('m, 'c) session \<Rightarrow> ('m, 'c) session" where
  "emit ev st = st\<lparr>trace := trace st @ [ev]\<rparr>"

text \<open>The events added between an earlier state and a later one.\<close>

definition new_events :: "('m, 'c) session \<Rightarrow> ('m, 'c) session \<Rightarrow> 'm event list" where
  "new_events st st' = drop (length (trace st)) (trace st')"

subsection \<open>Helpers: tokenize and detokenize\<close>

text \<open>
  \<^verbatim>\<open>std::vector::resize\<close>: truncate, or extend with zeros. \<open>write_buf\<close> is the
  buffer after the engine wrote \<open>out\<close> at its start. In \<^verbatim>\<open>tokenize\<close> the count of the
  second call is never negative, the buffer having the size the first call asked for.
\<close>

definition resize :: "nat \<Rightarrow> llama_token list \<Rightarrow> llama_token list" where
  "resize n xs = take n xs @ replicate (n - length xs) 0"

definition write_buf :: "llama_token list \<Rightarrow> llama_token list \<Rightarrow> llama_token list" where
  "write_buf out buf = take (length buf) (out @ drop (length out) buf)"

definition tokenize ::
  "('m, 'c) engine \<Rightarrow> ('m, 'c) session \<Rightarrow> string \<Rightarrow> bool \<Rightarrow> llama_token list \<times> ('m, 'c) session" where
  "tokenize e st text add_bos =
     (case g_model st of
        None \<Rightarrow> ([], st)
      | Some m \<Rightarrow>
          let tokens = replicate (length text + (if add_bos then 1 else 0)) 0;
              (n_tokens, out) = llama_tokenize e m text (length tokens) add_bos;
              tokens = write_buf out tokens;
              st = emit (EvTokenize text (length tokens) add_bos) st
          in if n_tokens < 0 then
               let tokens = resize (nat (- n_tokens)) tokens;
                   (n_tokens, out) = llama_tokenize e m text (length tokens) add_bos;
                   tokens = write_buf out tokens;
                   st = emit (EvTokenize text (length tokens) add_bos) st
               in (resize (nat n_tokens) tokens, st)
             else (resize (nat n_tokens) tokens, st))"

text \<open>The loop of \<^verbatim>\<open>detokenize\<close> over the tokens, appending to \<open>result\<close>.\<close>

fun detokenize_loop ::
  "('m, 'c) engine \<Rightarrow> 'm \<Rightarrow> llama_token list \<Rightarrow> string \<Rightarrow> ('m, 'c) session \<Rightarrow> string \<times> ('m, 'c) session" where
  "detokenize_loop e m [] result st = (result, st)"
| "detokenize_loop e m (tok # toks) result st =
     (let (n, buf) = llama_token_to_piece e m tok 256;
          st = emit (EvTokenToPiece tok) st
      in detokenize_loop e m toks (if 0 < n then result @ take (nat n) buf else result) st)"

definition detokenize ::
  "('m, 'c) engine \<Rightarrow> ('m, 'c) session \<Rightarrow> llama_token list \<Rightarrow> string \<times> ('m, 'c) session" where
  "detokenize e st tokens =
     (case g_model st of
        None \<Rightarrow> ([], st)
      | Some m \<Rightarrow> detokenize_loop e m tokens [] st)"

subsection \<open>Model management\<close>

text \<open>
  \<^verbatim>\<open>loadModel\<close>. \<open>now\<close> is what \<^verbatim>\<open>time(nullptr)\<close> returns. The available memory
  is read and logged only, and so is left out.
\<close>

definition loadModel ::
  "('m, 'c) engine \<Rightarrow> int \<Rightarrow> ('m, 'c) session \<Rightarrow> jstring \<Rightarrow> int \<Rightarrow> int \<Rightarrow> bool \<times> ('m, 'c) session" where
  "loadModel e now st modelPath nCtx nThreads =
     (let st = (case g_ctx st of
                  Some c \<Rightarrow> (emit EvFree st)\<lparr>g_ctx := None\<rparr>
                | None \<Rightarrow> st);
          st = (case g_model st of
                  Some m \<Rightarrow> (emit (EvFreeModel m) st)\<lparr>g_model := None\<rparr>
                | None \<Rightarrow> st);
          path = jstring_to_string modelPath;
          st = (if \<not> backend_initialized st
                then (emit EvBackendInit st)\<lparr>backend_initialized := True\<rparr>
                else st);
          model_params = (llama_model_default_params e)\<lparr>use_mmap := True, use_mlock := False\<rparr>;
          st = (emit (EvLoadModel path model_params) st)
                 \<lparr>g_model := llama_load_model_from_file e path model_params\<rparr>
      in case g_model st of
           None \<Rightarrow> (False, st)
         | Some m \<Rightarrow>
             let ctx_params = llama_context_default_params e;
                 ctx_params = ctx_params\<lparr>ctx_n_ctx := (if 0 < nCtx then nCtx else n_ctx (g_params st))\<rparr>;
                 ctx_params = ctx_params\<lparr>ctx_n_threads :=
                                (if 0 < nThreads then nThreads else n_threads (g_params st))\<rparr>;
                 ctx_params = ctx_params\<lparr>ctx_n_threads_batch := ctx_n_threads ctx_params\<rparr>;
                 ctx_params = ctx_params\<lparr>ctx_seed := word_of_int now\<rparr>;
                 st = (emit (EvNewContext m ctx_params) st)
                        \<lparr>g_ctx := llama_new_context_with_model e m ctx_params\<rparr>
             in (case g_ctx st of
                   None \<Rightarrow> (False, (emit (EvFreeModel m) st)\<lparr>g_model := None\<rparr>)
                 | Some c \<Rightarrow>
                     (True, st\<lparr>g_params := (g_params st)
                                  \<lparr>n_ctx := ctx_n_ctx ctx_params,
                                   n_threads := ctx_n_threads ctx_params\<rparr>\<rparr>)))"



subsection \<open>Text generation\<close>

text \<open>
  \<^verbatim>\<open>llama_batch_init(n, 0, 1)\<close> allocates \<open>n\<close> slots and sets \<open>n_tokens\<close> to 0.
  The allocated slots hold no defined value; they are zeros here, and the bridge
  writes each slot before the batch is submitted.
\<close>

definition llama_batch_init :: "nat \<Rightarrow> llama_batch" where
  "llama_batch_init n =
     \<lparr> n_tokens = 0, token = replicate n 0, pos = replicate n 0, n_seq_id = replicate n 0,
       seq_id = replicate n [], logits = replicate n False \<rparr>"

text \<open>
  The loop that fills the prompt batch, the same in \<^verbatim>\<open>generate\<close> and
  \<^verbatim>\<open>getEmbedding\<close>; \<open>i\<close> is the loop counter and \<open>sid\<close> the local \<^verbatim>\<open>seq_id\<close>
  every slot points to.
\<close>

function prefill_loop :: "llama_token list \<Rightarrow> llama_seq_id \<Rightarrow> nat \<Rightarrow> llama_batch \<Rightarrow> llama_batch" where
  "prefill_loop tokens sid i batch =
     (if i < length tokens then
        prefill_loop tokens sid (Suc i)
          (batch\<lparr> token := (token batch)[n_tokens batch := tokens ! i],
                  pos := (pos batch)[n_tokens batch := int i],
                  n_seq_id := (n_seq_id batch)[n_tokens batch := 1],
                  seq_id := (seq_id batch)[n_tokens batch := [sid]],
                  logits := (logits batch)[n_tokens batch := (i = length tokens - 1)],
                  n_tokens := n_tokens batch + 1 \<rparr>)
      else batch)"
  by pat_completeness auto
termination
  by (relation "measure (\<lambda>(tokens, sid, i, batch). length tokens - i)") auto

definition prefill_batch :: "llama_token list \<Rightarrow> llama_batch" where
  "prefill_batch tokens = prefill_loop tokens 0 0 (llama_batch_init (length tokens))"

text \<open>
  The five assignments under \<^verbatim>\<open>// Generation parameters\<close>: the values
  \<^verbatim>\<open>max_gen\<close>, \<^verbatim>\<open>temp\<close>, \<^verbatim>\<open>top_p_val\<close>, \<^verbatim>\<open>top_k_val\<close> and \<^verbatim>\<open>rep_pen\<close>.
\<close>

definition generation_parameters ::
  "GenerationParams \<Rightarrow> int \<Rightarrow> cfloat \<Rightarrow> cfloat \<Rightarrow> int \<Rightarrow> cfloat \<Rightarrow> int \<times> cfloat \<times> cfloat \<times> int \<times> cfloat" where
  "generation_parameters params maxTokens temperature' topP topK repeatPenalty =
     (let max_gen = (if 0 < maxTokens then maxTokens else max_tokens params);
          temp = (if ge_zero temperature' then temperature' else temperature params);
          top_p_val = (if gt_zero topP then topP else top_p params);
          top_k_val = (if 0 < topK then topK else top_k params);
          rep_pen = (if gt_zero repeatPenalty then repeatPenalty else repeat_penalty params)
      in (max_gen, temp, top_p_val, top_k_val, rep_pen))"

text \<open>
  \<^verbatim>\<open>stopGeneration\<close> takes no lock: another thread may run it while
  \<^verbatim>\<open>generate\<close> is running.
\<close>

definition stopGeneration :: "('m, 'c) session \<Rightarrow> ('m, 'c) session" where
  "stopGeneration st = (emit (EvSetStopRequested True) st)\<lparr>g_stop_requested := True\<rparr>"

definition isGenerating :: "('m, 'c) session \<Rightarrow> bool" where
  "isGenerating st = g_is_generating st"

text \<open>
  The batch built under \<^verbatim>\<open>// Prepare next batch\<close>: one slot, written by index.
\<close>

definition next_token_batch :: "llama_token \<Rightarrow> int \<Rightarrow> llama_batch" where
  "next_token_batch new_token n_cur =
     (let next_batch = llama_batch_init 1;
          next_batch = next_batch\<lparr>token := (token next_batch)[0 := new_token]\<rparr>;
          next_batch = next_batch\<lparr>pos := (pos next_batch)[0 := n_cur]\<rparr>;
          next_batch = next_batch\<lparr>n_seq_id := (n_seq_id next_batch)[0 := 1]\<rparr>;
          next_batch = next_batch\<lparr>seq_id := (seq_id next_batch)[0 := [0]]\<rparr>;
          next_batch = next_batch\<lparr>logits := (logits next_batch)[0 := True]\<rparr>;
          next_batch = next_batch\<lparr>n_tokens := 1\<rparr>
      in next_batch)"

text \<open>
  One pass through the body of the generation loop, from \<^verbatim>\<open>llama_get_logits\<close> to
  the decode of the new token. The first component of the result is \<open>False\<close> when the
  body leaves the loop by \<^verbatim>\<open>break\<close>; the others are \<^verbatim>\<open>generated\<close>, the context
  and the globals after the pass.
\<close>

definition generate_body ::
  "('m, 'c) engine \<Rightarrow> 'm \<Rightarrow> cfloat \<Rightarrow> cfloat \<Rightarrow> int \<Rightarrow> int \<Rightarrow> int \<Rightarrow> llama_token list \<Rightarrow> 'c
     \<Rightarrow> ('m, 'c) session \<Rightarrow> bool \<times> llama_token list \<times> 'c \<times> ('m, 'c) session" where
  "generate_body e m temp top_p_val top_k_val n_vocab n_cur generated c st =
     (let logits_ptr = llama_get_logits e c;
          st = emit EvGetLogits st;
          candidates = map (\<lambda>token_id. \<lparr> id_tok = token_id, logit = logits_ptr token_id,
                                         p_tok = Finite 0 \<rparr>) [0..n_vocab - 1];
          candidates_p = \<lparr> data = candidates, sorted_arr = False \<rparr>;
          (candidates_p, c) = llama_sample_top_k e c candidates_p top_k_val 1;
          st = emit (EvSampleTopK top_k_val 1) st;
          (candidates_p, c) = llama_sample_top_p e c candidates_p top_p_val 1;
          st = emit (EvSampleTopP top_p_val 1) st;
          (candidates_p, c) = llama_sample_temp e c candidates_p temp;
          st = emit (EvSampleTemp temp) st;
          (new_token, c) = llama_sample_token e c candidates_p;
          st = emit EvSampleToken st;
          eos = llama_token_eos e m;
          st = emit EvTokenEos st
      in if new_token = eos then (False, generated, c, st)
         else
           let generated = generated @ [new_token];
               next_batch = next_token_batch new_token n_cur;
               (rc, c) = llama_decode e c next_batch;
               st = emit (EvDecode next_batch) st
           in if rc \<noteq> 0 then (False, generated, c, st)
              else (True, generated, c, st))"

text \<open>
  The generation loop \<^verbatim>\<open>for (int i = 0; i < max_gen && !g_stop_requested; i++)\<close>.
  \<^verbatim>\<open>g_stop_requested\<close> is an atomic that \<^verbatim>\<open>stopGeneration\<close> sets from another
  thread. \<open>stops k\<close> tells whether such a call takes effect between the previous
  read of the flag (or its clearing at the start of \<^verbatim>\<open>generate\<close>) and the read in
  the loop condition with \<open>i = k\<close>. The flag is read only when \<^verbatim>\<open>i < max_gen\<close> holds.
\<close>

function generate_loop ::
  "('m, 'c) engine \<Rightarrow> 'm \<Rightarrow> (nat \<Rightarrow> bool) \<Rightarrow> int \<Rightarrow> cfloat \<Rightarrow> cfloat \<Rightarrow> int \<Rightarrow> int \<Rightarrow> int \<Rightarrow> int
     \<Rightarrow> llama_token list \<Rightarrow> 'c \<Rightarrow> ('m, 'c) session \<Rightarrow> llama_token list \<times> 'c \<times> ('m, 'c) session" where
  "generate_loop e m stops max_gen temp top_p_val top_k_val n_vocab i n_cur generated c st =
     (if i < max_gen then
        let st = (if stops (nat i) then stopGeneration st else st)
        in if g_stop_requested st then (generated, c, st)
           else
             let (continue, generated, c, st) =
                   generate_body e m temp top_p_val top_k_val n_vocab n_cur generated c st
             in if continue
                then generate_loop e m stops max_gen temp top_p_val top_k_val n_vocab (i + 1)
                       (n_cur + 1) generated c st
                else (generated, c, st)
      else (generated, c, st))"
  by pat_completeness auto
termination
  by (relation "measure (\<lambda>(e, m, stops, max_gen, temp, top_p_val, top_k_val, n_vocab, i, rest).
                            nat (max_gen - i))") auto

text \<open>
  \<^verbatim>\<open>generate\<close>. The result is the Java string it returns, made by
  \<^verbatim>\<open>string_to_jstring\<close> on every path, and the state of the globals, the context
  included, when the call returns.
\<close>

definition generate ::
  "('m, 'c) engine \<Rightarrow> (nat \<Rightarrow> bool) \<Rightarrow> ('m, 'c) session \<Rightarrow> jstring \<Rightarrow> int \<Rightarrow> cfloat \<Rightarrow> cfloat \<Rightarrow> int
     \<Rightarrow> cfloat \<Rightarrow> string \<times> ('m, 'c) session" where
  "generate e stops st prompt maxTokens temperature' topP topK repeatPenalty =
     (case (g_model st, g_ctx st) of
        (Some m, Some c) \<Rightarrow>
          (let st = (emit (EvSetGenerating True) st)\<lparr>g_is_generating := True\<rparr>;
               st = (emit (EvSetStopRequested False) st)\<lparr>g_stop_requested := False\<rparr>;
               prompt_str = jstring_to_string prompt;
               (tokens, st) = tokenize e st prompt_str True
           in if tokens = [] then
                (string_to_jstring ''[Error: Failed to tokenize]'',
                 (emit (EvSetGenerating False) st)\<lparr>g_is_generating := False\<rparr>)
              else
                let n_ctx' = llama_n_ctx e c;
                    st = emit EvNCtx st
                in if n_ctx' - 4 < int (length tokens) then
                     (string_to_jstring ''[Error: Prompt too long]'',
                      (emit (EvSetGenerating False) st)\<lparr>g_is_generating := False\<rparr>)
                   else
                     let c = llama_kv_cache_clear e c;
                         st = emit EvKvCacheClear st;
                         batch = prefill_batch tokens;
                         (rc, c) = llama_decode e c batch;
                         st = (emit (EvDecode batch) st)\<lparr>g_ctx := Some c\<rparr>
                     in if rc \<noteq> 0 then
                          (string_to_jstring ''[Error: Decode failed]'',
                           (emit (EvSetGenerating False) st)\<lparr>g_is_generating := False\<rparr>)
                        else
                          let (max_gen, temp, top_p_val, top_k_val, rep_pen) =
                                generation_parameters (g_params st) maxTokens temperature' topP topK
                                  repeatPenalty;
                              n_cur = int (length tokens);
                              n_vocab = llama_n_vocab e m;
                              st = emit EvNVocab st;
                              (generated, c, st) =
                                generate_loop e m stops max_gen temp top_p_val top_k_val n_vocab 0
                                  n_cur [] c st;
                              st = (emit (EvSetGenerating False) st)
                                     \<lparr>g_is_generating := False, g_ctx := Some c\<rparr>;
                              (result, st) = detokenize e st generated
                          in (string_to_jstring result, st))
      | _ \<Rightarrow> (string_to_jstring ''[Error: Model not loaded]'', st))"

subsection \<open>Configuration\<close>

definition setDefaultParams ::
  "('m, 'c) session \<Rightarrow> int \<Rightarrow> cfloat \<Rightarrow> cfloat \<Rightarrow> int \<Rightarrow> cfloat \<Rightarrow> ('m, 'c) session" where
  "setDefaultParams st maxTokens temperature' topP topK repeatPenalty =
     (let st = (if 0 < maxTokens then st\<lparr>g_params := (g_params st)\<lparr>max_tokens := maxTokens\<rparr>\<rparr> else st);
          st = (if ge_zero temperature'
                then st\<lparr>g_params := (g_params st)\<lparr>temperature := temperature'\<rparr>\<rparr> else st);
          st = (if gt_zero topP then st\<lparr>g_params := (g_params st)\<lparr>top_p := topP\<rparr>\<rparr> else st);
          st = (if 0 < topK then st\<lparr>g_params := (g_params st)\<lparr>top_k := topK\<rparr>\<rparr> else st);
          st = (if gt_zero repeatPenalty
                then st\<lparr>g_params := (g_params st)\<lparr>repeat_penalty := repeatPenalty\<rparr>\<rparr> else st)
      in st)"

subsection \<open>Embeddings\<close>

text \<open>
  Single-precision addition, multiplication, division and \<^verbatim>\<open>sqrtf\<close> are parameters of
  \<^verbatim>\<open>getEmbedding\<close>, and so is the outcome of \<^verbatim>\<open>NewFloatArray\<close> (\<open>False\<close> when it
  returns null).
\<close>

record float_ops =
  fl_add :: "cfloat \<Rightarrow> cfloat \<Rightarrow> cfloat"
  fl_mul :: "cfloat \<Rightarrow> cfloat \<Rightarrow> cfloat"
  fl_div :: "cfloat \<Rightarrow> cfloat \<Rightarrow> cfloat"
  fl_sqrt :: "cfloat \<Rightarrow> cfloat"

definition getEmbedding ::
  "('m, 'c) engine \<Rightarrow> float_ops \<Rightarrow> bool \<Rightarrow> ('m, 'c) session \<Rightarrow> jstring
     \<Rightarrow> cfloat list option \<times> ('m, 'c) session" where
  "getEmbedding e fl new_array_ok st text =
     (case (g_model st, g_ctx st) of
        (Some m, Some c) \<Rightarrow>
          (let text_str = jstring_to_string text;
               (tokens, st) = tokenize e st text_str True
           in if tokens = [] then (None, st)
              else
                let c = llama_kv_cache_clear e c;
                    st = emit EvKvCacheClear st;
                    batch = prefill_batch tokens;
                    (rc, c) = llama_decode e c batch;
                    st = (emit (EvDecode batch) st)\<lparr>g_ctx := Some c\<rparr>
                in if rc \<noteq> 0 then (None, st)
                   else
                     let n_embd = llama_n_embd e m;
                         st = emit EvNEmbd st
                     in if n_embd \<le> 0 then (None, st)
                        else
                          let embd = llama_get_embeddings e c;
                              st = emit EvGetEmbeddings st
                          in (case embd of
                                None \<Rightarrow> (None, st)
                              | Some embd \<Rightarrow>
                                  let norm = fold (\<lambda>i norm. fl_add fl norm (fl_mul fl (embd i) (embd i)))
                                               [0..n_embd - 1] (Finite 0);
                                      norm = fl_sqrt fl norm
                                  in if \<not> new_array_ok then (None, st)
                                     else (Some (map (\<lambda>i. fl_div fl (embd i) norm) [0..n_embd - 1]), st)))
      | _ \<Rightarrow> (None, st))"

section \<open>Vocabulary of the properties\<close>

text \<open>The four sampling calls, and the events of one run of them in the order of the spec.\<close>

fun is_sampling_event :: "'m event \<Rightarrow> bool" where
  "is_sampling_event (EvSampleTopK k min_keep) = True"
| "is_sampling_event (EvSampleTopP p min_keep) = True"
| "is_sampling_event (EvSampleTemp t) = True"
| "is_sampling_event EvSampleToken = True"
| "is_sampling_event ev = False"

definition sampling_pipeline :: "int \<Rightarrow> cfloat \<Rightarrow> cfloat \<Rightarrow> 'm event list" where
  "sampling_pipeline top_k_val top_p_val temp =
     [EvSampleTopK top_k_val 1, EvSampleTopP top_p_val 1, EvSampleTemp temp, EvSampleToken]"

text \<open>
  The pipeline as the spec orders it: the candidate array of all vocabulary ids with the
  scores of the context goes through top-k, then top-p, then temperature, and the token
  is drawn from what is left. The result is the token and the context after the draw.
\<close>

definition draw_next_token ::
  "('m, 'c) engine \<Rightarrow> cfloat \<Rightarrow> cfloat \<Rightarrow> int \<Rightarrow> int \<Rightarrow> 'c \<Rightarrow> llama_token \<times> 'c" where
  "draw_next_token e temp top_p_val top_k_val n_vocab c =
     (let all_candidates =
            \<lparr> data = map (\<lambda>token_id. \<lparr> id_tok = token_id, logit = llama_get_logits e c token_id,
                                      p_tok = Finite 0 \<rparr>) [0..n_vocab - 1],
              sorted_arr = False \<rparr>;
          (after_top_k, c) = llama_sample_top_k e c all_candidates top_k_val 1;
          (after_top_p, c) = llama_sample_top_p e c after_top_k top_p_val 1;
          (after_temp, c) = llama_sample_temp e c after_top_p temp
      in llama_sample_token e c after_temp)"

text \<open>The events of \<^verbatim>\<open>tokenize\<close>: one call of the engine, and a second one after an undersized buffer.\<close>

definition tokenize_events :: "('m, 'c) engine \<Rightarrow> 'm \<Rightarrow> string \<Rightarrow> bool \<Rightarrow> 'm event list" where
  "tokenize_events e m text add_bos =
     (let n = length text + (if add_bos then 1 else 0)
      in if n < length (vocab_tokenize e m text add_bos)
         then [EvTokenize text n add_bos,
               EvTokenize text (length (vocab_tokenize e m text add_bos)) add_bos]
         else [EvTokenize text n add_bos])"

text \<open>
  The globals when \<^verbatim>\<open>generate\<close> enters its generation loop, \<open>c'\<close> being the context
  after the decode of the prompt.
\<close>

definition loop_entry ::
  "('m, 'c) engine \<Rightarrow> 'm \<Rightarrow> ('m, 'c) session \<Rightarrow> string \<Rightarrow> 'c \<Rightarrow> ('m, 'c) session" where
  "loop_entry e m st prompt_str c' =
     st\<lparr>g_is_generating := True, g_stop_requested := False, g_ctx := Some c',
        trace := trace st @ [EvSetGenerating True, EvSetStopRequested False]
                 @ tokenize_events e m prompt_str True
                 @ [EvNCtx, EvKvCacheClear, EvDecode (prefill_batch (vocab_tokenize e m prompt_str True)),
                    EvNVocab]\<rparr>"




text \<open>Parameters that leave every mechanism switched on.\<close>

definition params_enabled :: "int \<times> cfloat \<times> cfloat \<times> int \<times> cfloat \<Rightarrow> bool" where
  "params_enabled ps =
     (case ps of (max_gen, temp, top_p_val, top_k_val, rep_pen) \<Rightarrow>
        0 < max_gen \<and> ge_zero temp \<and> gt_zero top_p_val \<and> 0 < top_k_val \<and> gt_zero rep_pen)"

definition defaults_of :: "GenerationParams \<Rightarrow> int \<times> cfloat \<times> cfloat \<times> int \<times> cfloat" where
  "defaults_of params =
     (max_tokens params, temperature params, top_p params, top_k params, repeat_penalty params)"

section \<open>A small engine for concrete runs\<close>

text \<open>
  A model is a number, a context counts the decodes since the cache was cleared. The
  tokenizer puts token 1 in front and maps each byte to its code; a context holds 12
  tokens; a context of more than 4096 tokens cannot be created; the fourth decode fails;
  the token drawn after \<open>c\<close> decodes is \<open>100 + c\<close>; token 2 ends the sequence.
\<close>

definition small_engine :: "(nat, nat) engine" where
  "small_engine =
     \<lparr> llama_model_default_params = \<lparr> use_mmap = False, use_mlock = True \<rparr>,
       llama_context_default_params =
         \<lparr> ctx_n_ctx = 512, ctx_n_threads = 1, ctx_n_threads_batch = 1, ctx_seed = 0 \<rparr>,
       llama_load_model_from_file = (\<lambda>path params. if path = ''m.gguf'' then Some 7 else None),
       llama_new_context_with_model = (\<lambda>m params. if 4096 < ctx_n_ctx params then None else Some 0),
       vocab_tokenize = (\<lambda>m text add_bos. (if add_bos then [1] else []) @ map (\<lambda>ch. int (of_char ch)) text),
       llama_token_to_piece = (\<lambda>m tok n. (1, [char_of tok])),
       llama_n_ctx = (\<lambda>c. 12),
       llama_n_vocab = (\<lambda>m. 3),
       llama_n_embd = (\<lambda>m. 2),
       llama_token_eos = (\<lambda>m. 2),
       llama_kv_cache_clear = (\<lambda>c. 0),
       llama_decode = (\<lambda>c batch. (if 3 \<le> c then 1 else 0, c + 1)),
       llama_get_logits = (\<lambda>c token_id. Finite (of_int token_id)),
       llama_get_embeddings = (\<lambda>c. Some (\<lambda>i. Finite 1)),
       llama_sample_top_k = (\<lambda>c cands k min_keep. (cands\<lparr>data := take (nat k) (data cands)\<rparr>, c)),
       llama_sample_top_p = (\<lambda>c cands p min_keep. (cands, c)),
       llama_sample_temp = (\<lambda>c cands t. (cands, c)),
       llama_sample_token = (\<lambda>c cands. (100 + int c, c)) \<rparr>"

text \<open>The same engine with a vocabulary that has no leading token and a context of 2 tokens.\<close>

definition tiny_engine :: "(nat, nat) engine" where
  "tiny_engine =
     small_engine\<lparr> vocab_tokenize := (\<lambda>m text add_bos. map (\<lambda>ch. int (of_char ch)) text),
                   llama_n_ctx := (\<lambda>c. 2) \<rparr>"

text \<open>
  The globals once the model file is loaded: by the small engine with the default context
  size, by the other with a context of 2 tokens.
\<close>

definition loaded_session :: "(nat, nat) session" where
  "loaded_session = snd (loadModel small_engine 0 initial_session (Some ''m.gguf'') 0 0)"

definition tiny_session :: "(nat, nat) session" where
  "tiny_session = snd (loadModel tiny_engine 0 initial_session (Some ''m.gguf'') 2 0)"

text \<open>The small engine again, with a NUL byte as the piece of token 102.\<close>

definition nul_engine :: "(nat, nat) engine" where
  "nul_engine =
     small_engine\<lparr> llama_token_to_piece :=
                     (\<lambda>m tok n. (1, [if tok = 102 then CHR 0x00 else char_of tok])) \<rparr>"

definition nul_session :: "(nat, nat) session" where
  "nul_session = snd (loadModel nul_engine 0 initial_session (Some ''m.gguf'') 0 0)"

text \<open>No concurrent stop request; a stop request before the first check of the loop.\<close>

definition never_stops :: "nat \<Rightarrow> bool" where
  "never_stops k = False"

definition stops_at_once :: "nat \<Rightarrow> bool" where
  "stops_at_once k = (k = 0)"

section \<open>Auxiliary facts\<close>

declare generate_loop.simps [simp del] prefill_loop.simps [simp del]

lemma emit_simps [simp]:
  "trace (emit ev st) = trace st @ [ev]"
  "g_model (emit ev st) = g_model st"
  "g_ctx (emit ev st) = g_ctx st"
  "g_is_generating (emit ev st) = g_is_generating st"
  "g_stop_requested (emit ev st) = g_stop_requested st"
  "g_params (emit ev st) = g_params st"
  "backend_initialized (emit ev st) = backend_initialized st"
  by (simp_all add: emit_def)

lemma stopGeneration_simps [simp]:
  "trace (stopGeneration st) = trace st @ [EvSetStopRequested True]"
  "g_stop_requested (stopGeneration st)"
  "g_is_generating (stopGeneration st) = g_is_generating st"
  "g_model (stopGeneration st) = g_model st"
  "g_ctx (stopGeneration st) = g_ctx st"
  "g_params (stopGeneration st) = g_params st"
  by (simp_all add: stopGeneration_def)

lemma new_events_append [simp]: "trace st' = trace st @ evs \<Longrightarrow> new_events st st' = evs"
  by (simp add: new_events_def)

lemma session_frame:
  assumes "st' = st\<lparr>trace := t, g_stop_requested := b\<rparr>"
  shows "g_model st' = g_model st" and "g_ctx st' = g_ctx st"
    and "g_is_generating st' = g_is_generating st" and "g_params st' = g_params st"
  using assms by simp_all

lemma string_to_jstring_errors [simp]:
  "string_to_jstring ''[Error: Model not loaded]'' = ''[Error: Model not loaded]''"
  "string_to_jstring ''[Error: Failed to tokenize]'' = ''[Error: Failed to tokenize]''"
  "string_to_jstring ''[Error: Prompt too long]'' = ''[Error: Prompt too long]''"
  "string_to_jstring ''[Error: Decode failed]'' = ''[Error: Decode failed]''"
  by (simp_all add: string_to_jstring_def)

lemma string_to_jstring_Nil [simp]: "string_to_jstring [] = []"
  by (simp add: string_to_jstring_def)


subsection \<open>tokenize and detokenize\<close>

lemma resize_write_buf_fits:
  "length res \<le> length buf \<Longrightarrow> resize (length res) (write_buf res buf) = res"
  by (simp add: resize_def write_buf_def)

lemma length_write_buf [simp]: "length (write_buf out buf) = length buf"
  by (simp add: write_buf_def)

lemma length_resize [simp]: "length (resize n xs) = n"
  by (simp add: resize_def)

lemma tokenize_Some:
  "g_model st = Some m \<Longrightarrow>
   tokenize e st text add_bos =
     (vocab_tokenize e m text add_bos, st\<lparr>trace := trace st @ tokenize_events e m text add_bos\<rparr>)"
  by (simp add: tokenize_def llama_tokenize_def tokenize_events_def Let_def resize_write_buf_fits
      emit_def)

lemma tokenize_None: "g_model st = None \<Longrightarrow> tokenize e st text add_bos = ([], st)"
  by (simp add: tokenize_def)

lemma tokenize_events_no_decode:
  "EvDecode b \<notin> set (tokenize_events e m text add_bos)"
  "EvKvCacheClear \<notin> set (tokenize_events e m text add_bos)"
  "filter is_sampling_event (tokenize_events e m text add_bos) = []"
  by (simp_all add: tokenize_events_def Let_def)

lemma detokenize_loop_snd:
  "snd (detokenize_loop e m toks result st) = st\<lparr>trace := trace st @ map EvTokenToPiece toks\<rparr>"
  by (induction toks arbitrary: result st) (simp_all add: split_def Let_def emit_def)

lemma detokenize_loop_fst:
  "fst (detokenize_loop e m toks result st) = fst (detokenize_loop e m toks result st')"
  by (induction toks arbitrary: result st st') (simp_all add: split_def Let_def)

lemma detokenize_snd:
  "g_model st = Some m \<Longrightarrow>
   snd (detokenize e st toks) = st\<lparr>trace := trace st @ map EvTokenToPiece toks\<rparr>"
  by (simp add: detokenize_def detokenize_loop_snd)

lemma detokenize_fst:
  "g_model st = g_model st' \<Longrightarrow> fst (detokenize e st toks) = fst (detokenize e st' toks)"
  by (auto simp: detokenize_def detokenize_loop_fst split: option.splits)

lemma detokenize_Nil: "fst (detokenize e st []) = []"
  by (simp add: detokenize_def split: option.splits)

lemma filter_sampling_piece [simp]:
  "filter is_sampling_event (map EvTokenToPiece toks) = []"
  by (induction toks) simp_all

subsection \<open>The batches\<close>

lemma prefill_loop_gen:
  "n_tokens b = i \<Longrightarrow> i \<le> length tokens \<Longrightarrow> length (token b) = length tokens \<Longrightarrow>
   length (pos b) = length tokens \<Longrightarrow> length (n_seq_id b) = length tokens \<Longrightarrow>
   length (seq_id b) = length tokens \<Longrightarrow> length (logits b) = length tokens \<Longrightarrow>
   prefill_loop tokens sid i b =
     \<lparr> n_tokens = length tokens,
       token = take i (token b) @ drop i tokens,
       pos = take i (pos b) @ map int [i..<length tokens],
       n_seq_id = take i (n_seq_id b) @ replicate (length tokens - i) 1,
       seq_id = take i (seq_id b) @ replicate (length tokens - i) [sid],
       logits = take i (logits b) @ map (\<lambda>j. j = length tokens - 1) [i..<length tokens] \<rparr>"
proof (induction tokens sid i b rule: prefill_loop.induct)
  case (1 tokens sid i batch)
  show ?case
  proof (cases "i < length tokens")
    case True
    have step: "take (Suc i) (xs[i := v]) = take i xs @ [v]"
      if "length xs = length tokens" for xs :: "'a list" and v
      using that True by (simp add: take_Suc_conv_app_nth)
    have rep: "replicate (length tokens - i) v = v # replicate (length tokens - Suc i) v"
      for v :: 'a
      using True by (metis Suc_diff_Suc replicate_Suc)
    from True 1 show ?thesis
      apply (subst prefill_loop.simps)
      apply (simp add: step upt_conv_Cons Cons_nth_drop_Suc)
      apply (simp add: rep)
      done
  next
    case False
    with 1 show ?thesis
      by (subst prefill_loop.simps) simp
  qed
qed

lemma prefill_batch_eq:
  "prefill_batch tokens =
     \<lparr> n_tokens = length tokens, token = tokens, pos = map int [0..<length tokens],
       n_seq_id = replicate (length tokens) 1, seq_id = replicate (length tokens) [0],
       logits = map (\<lambda>j. j = length tokens - 1) [0..<length tokens] \<rparr>"
  unfolding prefill_batch_def
  by (subst prefill_loop_gen) (simp_all add: llama_batch_init_def)

lemma next_token_batch_eq:
  "next_token_batch new_token n_cur =
     \<lparr> n_tokens = 1, token = [new_token], pos = [n_cur], n_seq_id = [1], seq_id = [[0]],
       logits = [True] \<rparr>"
  by (simp add: next_token_batch_def llama_batch_init_def)

subsection \<open>The generation loop\<close>

lemma filter_sampling_pipeline [simp]:
  "filter is_sampling_event (sampling_pipeline k p t) = sampling_pipeline k p t"
  by (simp add: sampling_pipeline_def)

lemma generate_body_eq:
  "generate_body e m temp top_p_val top_k_val n_vocab n_cur generated c st =
     (let (new_token, c) = draw_next_token e temp top_p_val top_k_val n_vocab c;
          st = st\<lparr>trace := trace st @ EvGetLogits # sampling_pipeline top_k_val top_p_val temp
                     @ [EvTokenEos]\<rparr>
      in if new_token = llama_token_eos e m then (False, generated, c, st)
         else
           let (rc, c) = llama_decode e c (next_token_batch new_token n_cur)
           in (rc = 0, generated @ [new_token], c,
               st\<lparr>trace := trace st @ [EvDecode (next_token_batch new_token n_cur)]\<rparr>))"
  by (simp add: generate_body_def draw_next_token_def sampling_pipeline_def Let_def split_def
      emit_def)

lemma generate_body_session:
  "generate_body e m temp top_p_val top_k_val n_vocab n_cur generated c st = (continue, generated', c', st') \<Longrightarrow>
   st' = st\<lparr>trace := trace st'\<rparr> \<and>
   (\<exists>dec. trace st' = trace st @ EvGetLogits # sampling_pipeline top_k_val top_p_val temp @ EvTokenEos # dec
       \<and> (dec = [] \<or> (\<exists>b. dec = [EvDecode b])))"
  by (auto simp: generate_body_eq Let_def split_def split: if_splits)

lemma generate_loop_session:
  "generate_loop e m stops max_gen temp top_p_val top_k_val n_vocab i n_cur generated c st = (generated', c', st') \<Longrightarrow>
   st' = st\<lparr>trace := trace st', g_stop_requested := g_stop_requested st'\<rparr> \<and>
   (\<exists>evs j. trace st' = trace st @ evs \<and>
       filter is_sampling_event evs = concat (replicate j (sampling_pipeline top_k_val top_p_val temp)))"
proof (induction e m stops max_gen temp top_p_val top_k_val n_vocab i n_cur generated c st
    arbitrary: generated' c' st' rule: generate_loop.induct)
  case (1 e m stops max_gen temp top_p_val top_k_val n_vocab i n_cur generated c st)
  note eq = "1.prems"[unfolded generate_loop.simps[of e m stops max_gen temp top_p_val top_k_val n_vocab i n_cur generated c st]]
  show ?case
  proof (cases "i < max_gen")
    case False
    with eq have "st' = st" by simp
    then show ?thesis
      by (auto intro: exI[of _ "[]"] exI[of _ 0])
  next
    case lt: True
    define st0 where "st0 = (if stops (nat i) then stopGeneration st else st)"
    have st0: "st0 = st\<lparr>trace := trace st0, g_stop_requested := g_stop_requested st0\<rparr>"
      and tr0: "\<exists>evs. trace st0 = trace st @ evs \<and> filter is_sampling_event evs = []"
      by (auto simp: st0_def stopGeneration_def emit_def)
    show ?thesis
    proof (cases "g_stop_requested st0")
      case True
      with eq lt have "st' = st0" by (simp add: st0_def Let_def)
      with st0 tr0 show ?thesis
        by (metis concat.simps(1) replicate_0)
    next
      case nostop: False
      obtain continue g1 c1 st1 where body:
        "generate_body e m temp top_p_val top_k_val n_vocab n_cur generated c st0 = (continue, g1, c1, st1)"
        by (cases "generate_body e m temp top_p_val top_k_val n_vocab n_cur generated c st0") auto
      from generate_body_session[OF body] obtain dec where
        st1: "st1 = st0\<lparr>trace := trace st1\<rparr>"
        and tr1: "trace st1 = trace st0 @ EvGetLogits # sampling_pipeline top_k_val top_p_val temp @ EvTokenEos # dec"
        and dec: "dec = [] \<or> (\<exists>b. dec = [EvDecode b])"
        by blast
      from tr0 obtain evs0 where evs0: "trace st0 = trace st @ evs0" "filter is_sampling_event evs0 = []"
        by blast
      define mid where "mid = evs0 @ EvGetLogits # sampling_pipeline top_k_val top_p_val temp @ EvTokenEos # dec"
      have f1: "filter is_sampling_event mid = sampling_pipeline top_k_val top_p_val temp"
        using evs0(2) dec by (auto simp: mid_def)
      have tr1': "trace st1 = trace st @ mid"
        using tr1 evs0 by (simp add: mid_def)
      have st1': "st1 = st\<lparr>trace := trace st1, g_stop_requested := g_stop_requested st1\<rparr>"
        using st0 st1 by (metis (no_types, lifting) session.surjective session.update_convs(4,7) session.select_convs(4))
      show ?thesis
      proof (cases continue)
        case False
        with eq lt nostop body have "st' = st1"
          by (simp add: st0_def[symmetric] Let_def)
        with st1' tr1' f1 show ?thesis
          apply (intro conjI)
           apply simp
          apply (rule exI[of _ mid])
          apply (rule exI[of _ 1])
          apply simp
          done
      next
        case True
        with eq lt nostop body have rec:
          "generate_loop e m stops max_gen temp top_p_val top_k_val n_vocab (i + 1) (n_cur + 1) g1 c1 st1 = (generated', c', st')"
          by (simp add: st0_def[symmetric] Let_def)
        from "1.IH"[OF lt st0_def _ body[symmetric] refl refl refl True rec] nostop
        obtain evs j where
          a: "st' = st1\<lparr>trace := trace st', g_stop_requested := g_stop_requested st'\<rparr>"
          and b: "trace st' = trace st1 @ evs"
          and c: "filter is_sampling_event evs = concat (replicate j (sampling_pipeline top_k_val top_p_val temp))"
          by blast
        have "st' = st\<lparr>trace := trace st', g_stop_requested := g_stop_requested st'\<rparr>"
          using a st1' by (metis (no_types, lifting) session.surjective session.update_convs(4,7))
        moreover have "trace st' = trace st @ (mid @ evs)"
          using b tr1' by simp
        moreover have "filter is_sampling_event (mid @ evs)
            = concat (replicate (Suc j) (sampling_pipeline top_k_val top_p_val temp))"
          using f1 c by simp
        ultimately show ?thesis by blast
      qed
    qed
  qed
qed

lemma generate_loop_stop_now:
  "stops (nat i) \<or> g_stop_requested st \<Longrightarrow> i < max_gen \<Longrightarrow>
   generate_loop e m stops max_gen temp top_p_val top_k_val n_vocab i n_cur generated c st =
     (generated, c, if stops (nat i) then stopGeneration st else st)"
  by (subst generate_loop.simps) (auto simp: Let_def)

lemma generate_loop_done:
  "\<not> i < max_gen \<Longrightarrow>
   generate_loop e m stops max_gen temp top_p_val top_k_val n_vocab i n_cur generated c st =
     (generated, c, st)"
  by (subst generate_loop.simps) simp

lemma generate_loop_pass:
  "i < max_gen \<Longrightarrow> \<not> stops (nat i) \<Longrightarrow> \<not> g_stop_requested st \<Longrightarrow>
   generate_body e m temp top_p_val top_k_val n_vocab n_cur generated c st = (continue, generated', c', st') \<Longrightarrow>
   generate_loop e m stops max_gen temp top_p_val top_k_val n_vocab i n_cur generated c st =
     (if continue
      then generate_loop e m stops max_gen temp top_p_val top_k_val n_vocab (i + 1) (n_cur + 1) generated' c' st'
      else (generated', c', st'))"
  by (subst generate_loop.simps) (simp add: Let_def)

lemma generate_loop_frame:
  assumes "generate_loop e m stops max_gen temp top_p_val top_k_val n_vocab i n_cur generated c st
             = (generated', c', st')"
  shows "g_model st' = g_model st" and "g_is_generating st' = g_is_generating st"
    and "g_params st' = g_params st"
proof -
  from generate_loop_session[OF assms]
  have fr: "st' = st\<lparr>trace := trace st', g_stop_requested := g_stop_requested st'\<rparr>"
    by blast
  show "g_model st' = g_model st" and "g_is_generating st' = g_is_generating st"
    and "g_params st' = g_params st"
    by (rule session_frame[OF fr])+
qed

lemma generate_body_any_session:
  "generate_body e m temp top_p_val top_k_val n_vocab n_cur generated c st = (continue, generated', c', st') \<Longrightarrow>
   \<exists>st2'. generate_body e m temp top_p_val top_k_val n_vocab n_cur generated c st2
            = (continue, generated', c', st2') \<and> g_stop_requested st2' = g_stop_requested st2
          \<and> g_stop_requested st' = g_stop_requested st"
  by (auto simp: generate_body_eq Let_def split_def split: if_splits)

lemma generate_loop_any_session:
  "g_stop_requested st = g_stop_requested st2 \<Longrightarrow>
   fst (generate_loop e m stops max_gen temp top_p_val top_k_val n_vocab i n_cur generated c st) =
   fst (generate_loop e m stops max_gen temp top_p_val top_k_val n_vocab i n_cur generated c st2) \<and>
   fst (snd (generate_loop e m stops max_gen temp top_p_val top_k_val n_vocab i n_cur generated c st)) =
   fst (snd (generate_loop e m stops max_gen temp top_p_val top_k_val n_vocab i n_cur generated c st2))"
proof (induction e m stops max_gen temp top_p_val top_k_val n_vocab i n_cur generated c st
    arbitrary: st2 rule: generate_loop.induct)
  case (1 e m stops max_gen temp top_p_val top_k_val n_vocab i n_cur generated c st)
  show ?case
  proof (cases "i < max_gen")
    case False
    then show ?thesis by (simp add: generate_loop_done)
  next
    case lt: True
    show ?thesis
    proof (cases "stops (nat i) \<or> g_stop_requested st")
      case True
      with "1.prems" have "stops (nat i) \<or> g_stop_requested st2" by simp
      with True lt show ?thesis by (simp add: generate_loop_stop_now)
    next
      case False
      then have ns: "\<not> stops (nat i)" "\<not> g_stop_requested st" by auto
      with "1.prems" have ns2: "\<not> g_stop_requested st2" by simp
      obtain continue g1 c1 st1 where body:
        "generate_body e m temp top_p_val top_k_val n_vocab n_cur generated c st = (continue, g1, c1, st1)"
        by (cases "generate_body e m temp top_p_val top_k_val n_vocab n_cur generated c st") auto
      from generate_body_any_session[OF body, of st2] obtain st1' where body2:
        "generate_body e m temp top_p_val top_k_val n_vocab n_cur generated c st2 = (continue, g1, c1, st1')"
        and fl: "g_stop_requested st1' = g_stop_requested st2" "g_stop_requested st1 = g_stop_requested st"
        by blast
      have l1: "generate_loop e m stops max_gen temp top_p_val top_k_val n_vocab i n_cur generated c st =
          (if continue
           then generate_loop e m stops max_gen temp top_p_val top_k_val n_vocab (i + 1) (n_cur + 1) g1 c1 st1
           else (g1, c1, st1))"
        using lt ns body by (rule generate_loop_pass)
      have l2: "generate_loop e m stops max_gen temp top_p_val top_k_val n_vocab i n_cur generated c st2 =
          (if continue
           then generate_loop e m stops max_gen temp top_p_val top_k_val n_vocab (i + 1) (n_cur + 1) g1 c1 st1'
           else (g1, c1, st1'))"
        using lt ns(1) ns2 body2 by (rule generate_loop_pass)
      show ?thesis
      proof (cases continue)
        case False
        then show ?thesis by (simp add: l1 l2)
      next
        case True
        have st0: "st = (if stops (nat i) then stopGeneration st else st)"
          using ns by simp
        have "g_stop_requested st1 = g_stop_requested st1'"
          using fl "1.prems" by simp
        from "1.IH"[OF lt st0 ns(2) body[symmetric] refl refl refl True this]
        show ?thesis by (simp add: l1 l2 True)
      qed
    qed
  qed
qed



subsection \<open>The paths through generate\<close>

lemma generate_not_loaded:
  "g_model st = None \<or> g_ctx st = None \<Longrightarrow>
   generate e stops st prompt maxTokens temperature' topP topK repeatPenalty =
     (''[Error: Model not loaded]'', st)"
  by (auto simp: generate_def split: option.splits)

lemma generate_tokenize_failed:
  assumes "g_model st = Some m" "g_ctx st = Some c"
    and "vocab_tokenize e m (jstring_to_string prompt) True = []"
  shows "generate e stops st prompt maxTokens temperature' topP topK repeatPenalty =
     (''[Error: Failed to tokenize]'',
      st\<lparr>g_is_generating := False, g_stop_requested := False,
         trace := trace st @ [EvSetGenerating True, EvSetStopRequested False]
                  @ tokenize_events e m (jstring_to_string prompt) True
                  @ [EvSetGenerating False]\<rparr>)"
  using assms by (simp add: generate_def tokenize_Some emit_def)

lemma generate_too_long:
  assumes "g_model st = Some m" "g_ctx st = Some c"
    and "vocab_tokenize e m (jstring_to_string prompt) True \<noteq> []"
    and "llama_n_ctx e c - 4 < int (length (vocab_tokenize e m (jstring_to_string prompt) True))"
  shows "generate e stops st prompt maxTokens temperature' topP topK repeatPenalty =
     (''[Error: Prompt too long]'',
      st\<lparr>g_is_generating := False, g_stop_requested := False,
         trace := trace st @ [EvSetGenerating True, EvSetStopRequested False]
                  @ tokenize_events e m (jstring_to_string prompt) True
                  @ [EvNCtx, EvSetGenerating False]\<rparr>)"
  using assms by (simp add: generate_def tokenize_Some emit_def Let_def)

lemma generate_decode_failed:
  assumes "g_model st = Some m" "g_ctx st = Some c"
    and "vocab_tokenize e m (jstring_to_string prompt) True = tokens"
    and "tokens \<noteq> []"
    and "int (length tokens) \<le> llama_n_ctx e c - 4"
    and "llama_decode e (llama_kv_cache_clear e c) (prefill_batch tokens) = (rc, c')"
    and "rc \<noteq> 0"
  shows "generate e stops st prompt maxTokens temperature' topP topK repeatPenalty =
     (''[Error: Decode failed]'',
      st\<lparr>g_ctx := Some c', g_is_generating := False, g_stop_requested := False,
         trace := trace st @ [EvSetGenerating True, EvSetStopRequested False]
                  @ tokenize_events e m (jstring_to_string prompt) True
                  @ [EvNCtx, EvKvCacheClear, EvDecode (prefill_batch tokens), EvSetGenerating False]\<rparr>)"
  using assms by (simp add: generate_def tokenize_Some emit_def Let_def)

lemma generate_loop_reached:
  assumes "g_model st = Some m" "g_ctx st = Some c"
    and "vocab_tokenize e m (jstring_to_string prompt) True = tokens"
    and "tokens \<noteq> []"
    and "int (length tokens) \<le> llama_n_ctx e c - 4"
    and "llama_decode e (llama_kv_cache_clear e c) (prefill_batch tokens) = (0, c')"
    and "generation_parameters (g_params st) maxTokens temperature' topP topK repeatPenalty
           = (max_gen, temp, top_p_val, top_k_val, rep_pen)"
    and "generate_loop e m stops max_gen temp top_p_val top_k_val (llama_n_vocab e m) 0
           (int (length tokens)) [] c' (loop_entry e m st (jstring_to_string prompt) c')
           = (generated, c'', st')"
  shows "generate e stops st prompt maxTokens temperature' topP topK repeatPenalty =
     (string_to_jstring (fst (detokenize e
        ((emit (EvSetGenerating False) st')\<lparr>g_is_generating := False, g_ctx := Some c''\<rparr>) generated)),
      snd (detokenize e
        ((emit (EvSetGenerating False) st')\<lparr>g_is_generating := False, g_ctx := Some c''\<rparr>) generated))"
  using assms by (simp add: generate_def tokenize_Some emit_def Let_def loop_entry_def split_def)

lemma generation_parameters_cases:
  obtains max_gen temp top_p_val top_k_val rep_pen where
    "generation_parameters params maxTokens temperature' topP topK repeatPenalty
       = (max_gen, temp, top_p_val, top_k_val, rep_pen)"
  by (simp add: generation_parameters_def Let_def)

lemma generate_text_repeat_penalty_default:
  "fst (generate e stops (st\<lparr>g_params := (g_params st)\<lparr>repeat_penalty := r\<rparr>\<rparr>) prompt maxTokens
          temperature' topP topK repeatPenalty) =
   fst (generate e stops st prompt maxTokens temperature' topP topK repeatPenalty')"
proof -
  let ?st = "st\<lparr>g_params := (g_params st)\<lparr>repeat_penalty := r\<rparr>\<rparr>"
  let ?g1 = "generate e stops ?st prompt maxTokens temperature' topP topK repeatPenalty"
  let ?g2 = "generate e stops st prompt maxTokens temperature' topP topK repeatPenalty'"
  show ?thesis
  proof (cases "g_model st = None \<or> g_ctx st = None")
    case True
    then have "g_model ?st = None \<or> g_ctx ?st = None" by simp
    with True show ?thesis by (simp add: generate_not_loaded)
  next
    case False
    then obtain m c where loaded: "g_model st = Some m" "g_ctx st = Some c" by auto
    then have loaded': "g_model ?st = Some m" "g_ctx ?st = Some c" by simp_all
    let ?tokens = "vocab_tokenize e m (jstring_to_string prompt) True"
    show ?thesis
    proof (cases "?tokens = []")
      case True
      from generate_tokenize_failed[OF loaded True] generate_tokenize_failed[OF loaded' True]
      show ?thesis by simp
    next
      case ne: False
      show ?thesis
      proof (cases "llama_n_ctx e c - 4 < int (length ?tokens)")
        case True
        from generate_too_long[OF loaded ne True] generate_too_long[OF loaded' ne True]
        show ?thesis by simp
      next
        case False
        then have fits: "int (length ?tokens) \<le> llama_n_ctx e c - 4" by simp
        obtain rc c' where dec: "llama_decode e (llama_kv_cache_clear e c) (prefill_batch ?tokens) = (rc, c')"
          by (cases "llama_decode e (llama_kv_cache_clear e c) (prefill_batch ?tokens)") auto
        show ?thesis
        proof (cases "rc = 0")
          case False
          from generate_decode_failed[OF loaded refl ne fits dec False]
            generate_decode_failed[OF loaded' refl ne fits dec False]
          show ?thesis by simp
        next
          case True
          obtain max_gen temp top_p_val top_k_val rep_pen where params:
            "generation_parameters (g_params st) maxTokens temperature' topP topK repeatPenalty'
               = (max_gen, temp, top_p_val, top_k_val, rep_pen)"
            by (rule generation_parameters_cases)
          then have params':
            "generation_parameters (g_params ?st) maxTokens temperature' topP topK repeatPenalty
               = (max_gen, temp, top_p_val, top_k_val, if gt_zero repeatPenalty then repeatPenalty else r)"
            by (auto simp: generation_parameters_def Let_def)
          let ?e1 = "loop_entry e m ?st (jstring_to_string prompt) c'"
          let ?e2 = "loop_entry e m st (jstring_to_string prompt) c'"
          obtain g1 c1 s1 where loop1:
            "generate_loop e m stops max_gen temp top_p_val top_k_val (llama_n_vocab e m) 0
               (int (length ?tokens)) [] c' ?e1 = (g1, c1, s1)"
            by (metis prod_cases3)
          obtain g2 c2 s2 where loop2:
            "generate_loop e m stops max_gen temp top_p_val top_k_val (llama_n_vocab e m) 0
               (int (length ?tokens)) [] c' ?e2 = (g2, c2, s2)"
            by (metis prod_cases3)
          have "g_stop_requested ?e1 = g_stop_requested ?e2"
            by (simp add: loop_entry_def)
          from generate_loop_any_session[OF this, of e m stops max_gen temp top_p_val top_k_val
              "llama_n_vocab e m" 0 "int (length ?tokens)" "[]" c'] loop1 loop2
          have same: "g1 = g2" by simp
          from generate_loop_frame(1)[OF loop1] generate_loop_frame(1)[OF loop2]
          have gm: "g_model s1 = g_model s2"
            by (simp add: loop_entry_def)
          have "fst ?g1 = string_to_jstring (fst (detokenize e
                  ((emit (EvSetGenerating False) s1)\<lparr>g_is_generating := False, g_ctx := Some c1\<rparr>) g1))"
            by (simp add: generate_loop_reached[OF loaded' refl ne fits dec[unfolded True] params' loop1])
          moreover have "fst ?g2 = string_to_jstring (fst (detokenize e
                  ((emit (EvSetGenerating False) s2)\<lparr>g_is_generating := False, g_ctx := Some c2\<rparr>) g2))"
            by (simp add: generate_loop_reached[OF loaded refl ne fits dec[unfolded True] params loop2])
          ultimately show ?thesis
            using same gm by (simp add: detokenize_fst[of "(emit (EvSetGenerating False) s1)\<lparr>g_is_generating := False, g_ctx := Some c1\<rparr>"
                  "(emit (EvSetGenerating False) s2)\<lparr>g_is_generating := False, g_ctx := Some c2\<rparr>"])
        qed
      qed
    qed
  qed
qed

subsection \<open>loadModel\<close>



subsection \<open>The trace of generate and getEmbedding\<close>

lemma generate_after_prefill:
  assumes loaded: "g_model st = Some m" "g_ctx st = Some c"
    and tokens: "vocab_tokenize e m (jstring_to_string prompt) True = tokens" "tokens \<noteq> []"
      "int (length tokens) \<le> llama_n_ctx e c - 4"
    and params: "generation_parameters (g_params st) maxTokens temperature' topP topK repeatPenalty
           = (max_gen, temp, top_p_val, top_k_val, rep_pen)"
  shows "\<exists>evs j. trace (snd (generate e stops st prompt maxTokens temperature' topP topK repeatPenalty))
            = trace st @ [EvSetGenerating True, EvSetStopRequested False]
                @ tokenize_events e m (jstring_to_string prompt) True
                @ [EvNCtx, EvKvCacheClear, EvDecode (prefill_batch tokens)] @ evs
          \<and> filter is_sampling_event evs = concat (replicate j (sampling_pipeline top_k_val top_p_val temp))
          \<and> \<not> g_is_generating (snd (generate e stops st prompt maxTokens temperature' topP topK repeatPenalty))"
proof -
  obtain rc c' where dec: "llama_decode e (llama_kv_cache_clear e c) (prefill_batch tokens) = (rc, c')"
    by (cases "llama_decode e (llama_kv_cache_clear e c) (prefill_batch tokens)") auto
  show ?thesis
  proof (cases "rc = 0")
    case False
    from generate_decode_failed[OF loaded tokens dec False] show ?thesis
      by (auto intro!: exI[of _ "[EvSetGenerating False]"] exI[of _ 0])
  next
    case True
    let ?entry = "loop_entry e m st (jstring_to_string prompt) c'"
    obtain generated c'' st' where loop:
      "generate_loop e m stops max_gen temp top_p_val top_k_val (llama_n_vocab e m) 0
         (int (length tokens)) [] c' ?entry = (generated, c'', st')"
      by (metis prod_cases3)
    from generate_loop_session[OF loop] obtain evs j where
      fr: "st' = ?entry\<lparr>trace := trace st', g_stop_requested := g_stop_requested st'\<rparr>"
      and tr: "trace st' = trace ?entry @ evs"
      and fl: "filter is_sampling_event evs = concat (replicate j (sampling_pipeline top_k_val top_p_val temp))"
      by blast
    have gm: "g_model st' = Some m"
      using generate_loop_frame(1)[OF loop] loaded by (simp add: loop_entry_def)
    let ?fin = "(emit (EvSetGenerating False) st')\<lparr>g_is_generating := False, g_ctx := Some c''\<rparr>"
    have gen: "snd (generate e stops st prompt maxTokens temperature' topP topK repeatPenalty)
                 = snd (detokenize e ?fin generated)"
      by (simp add: generate_loop_reached[OF loaded tokens dec[unfolded True] params loop])
    have snd_eq: "snd (detokenize e ?fin generated) = ?fin\<lparr>trace := trace ?fin @ map EvTokenToPiece generated\<rparr>"
      by (rule detokenize_snd) (simp add: gm)
    have "trace (snd (generate e stops st prompt maxTokens temperature' topP topK repeatPenalty))
            = trace st @ [EvSetGenerating True, EvSetStopRequested False]
                @ tokenize_events e m (jstring_to_string prompt) True
                @ [EvNCtx, EvKvCacheClear, EvDecode (prefill_batch tokens)]
                @ (EvNVocab # evs @ EvSetGenerating False # map EvTokenToPiece generated)"
      by (simp add: gen snd_eq tr loop_entry_def tokens)
    moreover have "filter is_sampling_event (EvNVocab # evs @ EvSetGenerating False # map EvTokenToPiece generated)
            = concat (replicate j (sampling_pipeline top_k_val top_p_val temp))"
      by (simp add: fl)
    moreover have "\<not> g_is_generating (snd (generate e stops st prompt maxTokens temperature' topP topK repeatPenalty))"
      by (simp add: gen snd_eq)
    ultimately show ?thesis by blast
  qed
qed

lemma getEmbedding_after_tokenize:
  assumes "g_model st = Some m" "g_ctx st = Some c"
    and "vocab_tokenize e m (jstring_to_string text) True = tokens" "tokens \<noteq> []"
  shows "\<exists>evs. trace (snd (getEmbedding e fl new_array_ok st text))
            = trace st @ tokenize_events e m (jstring_to_string text) True
                @ [EvKvCacheClear, EvDecode (prefill_batch tokens)] @ evs"
  using assms
  by (simp add: getEmbedding_def tokenize_Some Let_def split_def emit_def split: option.splits)

lemma generate_early_exit:
  assumes "g_model st = Some m" "g_ctx st = Some c"
    and "vocab_tokenize e m (jstring_to_string prompt) True = [] \<or>
         llama_n_ctx e c - 4 < int (length (vocab_tokenize e m (jstring_to_string prompt) True))"
  shows "\<exists>rest. snd (generate e stops st prompt maxTokens temperature' topP topK repeatPenalty)
           = st\<lparr>g_is_generating := False, g_stop_requested := False,
                trace := trace st @ [EvSetGenerating True, EvSetStopRequested False]
                         @ tokenize_events e m (jstring_to_string prompt) True @ rest\<rparr>
         \<and> (rest = [EvSetGenerating False] \<or> rest = [EvNCtx, EvSetGenerating False])"
proof (cases "vocab_tokenize e m (jstring_to_string prompt) True = []")
  case True
  from generate_tokenize_failed[OF assms(1,2) True] show ?thesis
    by (intro exI[of _ "[EvSetGenerating False]"]) simp
next
  case False
  with assms(3) have "llama_n_ctx e c - 4 < int (length (vocab_tokenize e m (jstring_to_string prompt) True))"
    by simp
  from generate_too_long[OF assms(1,2) False this] show ?thesis
    by (intro exI[of _ "[EvNCtx, EvSetGenerating False]"]) simp
qed

lemma generate_loop_first_check:
  "stops 0 \<Longrightarrow>
   fst (generate_loop e m stops max_gen temp top_p_val top_k_val n_vocab 0 n_cur [] c st) = []"
  by (cases "0 < max_gen") (simp_all add: generate_loop_stop_now generate_loop_done)



subsection \<open>Runs of the small engine\<close>

lemma loaded_session_simps [simp]:
  "g_model loaded_session = Some 7"
  "g_ctx loaded_session = Some 0"
  "g_params loaded_session = default_GenerationParams"
  "\<not> g_is_generating loaded_session"
  by (simp_all add: loaded_session_def loadModel_def small_engine_def initial_session_def
      jstring_to_string_def emit_def Let_def default_GenerationParams_def)

lemma tiny_session_simps [simp]:
  "g_model tiny_session = Some 7"
  "g_ctx tiny_session = Some 0"
  by (simp_all add: tiny_session_def loadModel_def small_engine_def tiny_engine_def
      initial_session_def jstring_to_string_def emit_def Let_def default_GenerationParams_def)

lemma small_engine_simps [simp]:
  "llama_model_default_params small_engine = \<lparr> use_mmap = False, use_mlock = True \<rparr>"
  "llama_load_model_from_file small_engine path mp = (if path = ''m.gguf'' then Some 7 else None)"
  "llama_new_context_with_model small_engine m cp = (if 4096 < ctx_n_ctx cp then None else Some 0)"
  "vocab_tokenize small_engine m text add_bos = (if add_bos then [1] else []) @ map (\<lambda>ch. int (of_char ch)) text"
  "llama_token_to_piece small_engine m tok n = (1, [char_of tok])"
  "llama_n_ctx small_engine c = 12"
  "llama_n_vocab small_engine m = 3"
  "llama_n_embd small_engine m = 2"
  "llama_token_eos small_engine m = 2"
  "llama_kv_cache_clear small_engine c = 0"
  "llama_decode small_engine c batch = (if 3 \<le> c then 1 else 0, c + 1)"
  "llama_get_logits small_engine c token_id = Finite (of_int token_id)"
  "llama_get_embeddings small_engine c = Some (\<lambda>i. Finite 1)"
  "llama_sample_top_k small_engine c cands k min_keep = (cands\<lparr>data := take (nat k) (data cands)\<rparr>, c)"
  "llama_sample_top_p small_engine c cands p min_keep = (cands, c)"
  "llama_sample_temp small_engine c cands t = (cands, c)"
  "llama_sample_token small_engine c cands = (100 + int c, c)"
  by (simp_all add: small_engine_def)

lemma tiny_engine_simps [simp]:
  "vocab_tokenize tiny_engine m text add_bos = map (\<lambda>ch. int (of_char ch)) text"
  "llama_n_ctx tiny_engine c = 2"
  by (simp_all add: tiny_engine_def)

lemma small_engine_draw: "draw_next_token small_engine temp p k nv c = (100 + int c, c)"
  by (simp add: draw_next_token_def Let_def)

lemma small_engine_body:
  "generate_body small_engine m temp p k nv n_cur generated c st =
     (c < 3, generated @ [100 + int c], Suc c,
      st\<lparr>trace := trace st @ EvGetLogits # sampling_pipeline k p temp
                       @ [EvTokenEos, EvDecode (next_token_batch (100 + int c) n_cur)]\<rparr>)"
  by (simp add: generate_body_eq small_engine_draw Let_def)

lemma small_engine_one_pass:
  assumes "\<not> g_stop_requested st"
  shows "generate_loop small_engine 7 never_stops 1 temp p k nv 0 n_cur [] 1 st =
     ([101], 2, st\<lparr>trace := trace st @ EvGetLogits # sampling_pipeline k p temp
                         @ [EvTokenEos, EvDecode (next_token_batch 101 n_cur)]\<rparr>)"
proof -
  let ?st' = "st\<lparr>trace := trace st @ EvGetLogits # sampling_pipeline k p temp
                         @ [EvTokenEos, EvDecode (next_token_batch 101 n_cur)]\<rparr>"
  have body: "generate_body small_engine 7 temp p k nv n_cur [] 1 st = (True, [101], 2, ?st')"
    by (simp add: small_engine_body)
  have "generate_loop small_engine 7 never_stops 1 temp p k nv 0 n_cur [] 1 st =
      (if True then generate_loop small_engine 7 never_stops 1 temp p k nv (0 + 1) (n_cur + 1) [101] 2 ?st'
       else ([101], 2, ?st'))"
    by (rule generate_loop_pass[OF _ _ assms body]) (simp_all add: never_stops_def)
  then show ?thesis
    by (simp add: generate_loop_done)
qed

lemma nul_engine_simps [simp]:
  "llama_token_to_piece nul_engine m tok n = (1, [if tok = 102 then CHR 0x00 else char_of tok])"
  "vocab_tokenize nul_engine = vocab_tokenize small_engine"
  "llama_n_ctx nul_engine = llama_n_ctx small_engine"
  "llama_n_vocab nul_engine = llama_n_vocab small_engine"
  "llama_token_eos nul_engine = llama_token_eos small_engine"
  "llama_kv_cache_clear nul_engine = llama_kv_cache_clear small_engine"
  "llama_decode nul_engine = llama_decode small_engine"
  by (simp_all add: nul_engine_def)

lemma nul_session_simps [simp]:
  "g_model nul_session = Some 7"
  "g_ctx nul_session = Some 0"
  "g_params nul_session = default_GenerationParams"
  by (simp_all add: nul_session_def nul_engine_def loadModel_def small_engine_def initial_session_def
      jstring_to_string_def emit_def Let_def default_GenerationParams_def)



section \<open>The claims\<close>

subsection \<open>A failed load leaves no session\<close>



subsection \<open>The in-progress flag\<close>

text \<open>
  C2. With a model loaded, the first two events of \<^verbatim>\<open>generate\<close> are the setting of
  \<^verbatim>\<open>g_is_generating\<close> and the clearing of \<^verbatim>\<open>g_stop_requested\<close>, so every engine
  call of the run comes after them; and whatever path the call takes,
  \<^verbatim>\<open>g_is_generating\<close> is false when it returns.
\<close>

theorem generate_flags:
  assumes "g_model st = Some m" and "g_ctx st = Some c"
  shows "(\<exists>rest. trace (snd (generate e stops st prompt maxTokens temperature' topP topK repeatPenalty))
            = trace st @ EvSetGenerating True # EvSetStopRequested False # rest) \<and>
         \<not> g_is_generating (snd (generate e stops st prompt maxTokens temperature' topP topK repeatPenalty))"
proof (cases "vocab_tokenize e m (jstring_to_string prompt) True = [] \<or>
         llama_n_ctx e c - 4 < int (length (vocab_tokenize e m (jstring_to_string prompt) True))")
  case True
  from generate_early_exit[OF assms True] obtain rest where
    "snd (generate e stops st prompt maxTokens temperature' topP topK repeatPenalty)
           = st\<lparr>g_is_generating := False, g_stop_requested := False,
                trace := trace st @ [EvSetGenerating True, EvSetStopRequested False]
                         @ tokenize_events e m (jstring_to_string prompt) True @ rest\<rparr>"
    by blast
  then show ?thesis by simp
next
  case False
  obtain max_gen temp top_p_val top_k_val rep_pen where params:
    "generation_parameters (g_params st) maxTokens temperature' topP topK repeatPenalty
       = (max_gen, temp, top_p_val, top_k_val, rep_pen)"
    by (rule generation_parameters_cases)
  from False have "vocab_tokenize e m (jstring_to_string prompt) True \<noteq> []"
    and "int (length (vocab_tokenize e m (jstring_to_string prompt) True)) \<le> llama_n_ctx e c - 4"
    by auto
  from generate_after_prefill[OF assms refl this params, of stops] show ?thesis
    by auto
qed

theorem generate_flags_witness:
  "g_model loaded_session = Some 7 \<and> g_ctx loaded_session = Some 0 \<and>
   (\<exists>rest. trace (snd (generate small_engine never_stops loaded_session (Some ''Hi'') 2 NaN NaN 0 NaN))
            = trace loaded_session @ EvSetGenerating True # EvSetStopRequested False # rest) \<and>
   \<not> g_is_generating (snd (generate small_engine never_stops loaded_session (Some ''Hi'') 2 NaN NaN 0 NaN))"
  using generate_flags [of loaded_session 7 0 small_engine never_stops "Some ''Hi''" 2 NaN NaN 0 NaN]
  by simp

subsection \<open>The order of the sampling calls\<close>

text \<open>
  C3. The sampling calls of a whole run of \<^verbatim>\<open>generate\<close> come in blocks of four, top-k,
  top-p, temperature, draw, with the resolved parameters; and the token one pass of the
  loop appends is the one drawn from the candidate array after it went through the three
  filters in that order.
\<close>

theorem sampling_order:
  "(case generation_parameters (g_params st) maxTokens temperature' topP topK repeatPenalty of
      (max_gen, temp, top_p_val, top_k_val, rep_pen) \<Rightarrow>
        \<exists>j. filter is_sampling_event
               (new_events st (snd (generate e stops st prompt maxTokens temperature' topP topK repeatPenalty)))
             = concat (replicate j (sampling_pipeline top_k_val top_p_val temp))) \<and>
   (case draw_next_token e temp' top_p_val' top_k_val' n_vocab c of
      (new_token, c') \<Rightarrow>
        fst (snd (generate_body e m temp' top_p_val' top_k_val' n_vocab n_cur generated c st)) =
          (if new_token = llama_token_eos e m then generated else generated @ [new_token]) \<and>
        take 5 (new_events st
                  (snd (snd (snd (generate_body e m temp' top_p_val' top_k_val' n_vocab n_cur generated c st)))))
          = EvGetLogits # sampling_pipeline top_k_val' top_p_val' temp')"
proof (rule conjI)
  obtain max_gen temp top_p_val top_k_val rep_pen where params:
    "generation_parameters (g_params st) maxTokens temperature' topP topK repeatPenalty
       = (max_gen, temp, top_p_val, top_k_val, rep_pen)"
    by (rule generation_parameters_cases)
  let ?st' = "snd (generate e stops st prompt maxTokens temperature' topP topK repeatPenalty)"
  have "\<exists>j. filter is_sampling_event (new_events st ?st')
             = concat (replicate j (sampling_pipeline top_k_val top_p_val temp))"
  proof (cases "g_model st = None \<or> g_ctx st = None")
    case True
    then have "?st' = st" by (simp add: generate_not_loaded)
    then have "filter is_sampling_event (new_events st ?st') = concat (replicate 0 (sampling_pipeline top_k_val top_p_val temp))"
      by (simp add: new_events_def)
    then show ?thesis by blast
  next
    case False
    then obtain m c where loaded: "g_model st = Some m" "g_ctx st = Some c" by auto
    show ?thesis
    proof (cases "vocab_tokenize e m (jstring_to_string prompt) True = [] \<or>
         llama_n_ctx e c - 4 < int (length (vocab_tokenize e m (jstring_to_string prompt) True))")
      case True
      from generate_early_exit[OF loaded True] obtain rest where
        st': "?st' = st\<lparr>g_is_generating := False, g_stop_requested := False,
                trace := trace st @ [EvSetGenerating True, EvSetStopRequested False]
                         @ tokenize_events e m (jstring_to_string prompt) True @ rest\<rparr>"
        and rest: "rest = [EvSetGenerating False] \<or> rest = [EvNCtx, EvSetGenerating False]"
        by blast
      have "new_events st ?st' = [EvSetGenerating True, EvSetStopRequested False]
                         @ tokenize_events e m (jstring_to_string prompt) True @ rest"
        by (rule new_events_append) (simp add: st')
      with rest have "filter is_sampling_event (new_events st ?st') = concat (replicate 0 (sampling_pipeline top_k_val top_p_val temp))"
        by (auto simp: tokenize_events_no_decode)
      then show ?thesis by blast
    next
      case False
      then have "vocab_tokenize e m (jstring_to_string prompt) True \<noteq> []"
        and "int (length (vocab_tokenize e m (jstring_to_string prompt) True)) \<le> llama_n_ctx e c - 4"
        by auto
      from generate_after_prefill[OF loaded refl this params, of stops] obtain evs j where
        tr: "trace ?st' = trace st @ ([EvSetGenerating True, EvSetStopRequested False]
                @ tokenize_events e m (jstring_to_string prompt) True
                @ [EvNCtx, EvKvCacheClear, EvDecode (prefill_batch (vocab_tokenize e m (jstring_to_string prompt) True))] @ evs)"
        and fl: "filter is_sampling_event evs = concat (replicate j (sampling_pipeline top_k_val top_p_val temp))"
        by auto
      from new_events_append[OF tr] fl
      have "filter is_sampling_event (new_events st ?st') = concat (replicate j (sampling_pipeline top_k_val top_p_val temp))"
        by (simp add: tokenize_events_no_decode)
      then show ?thesis by blast
    qed
  qed
  with params show "case generation_parameters (g_params st) maxTokens temperature' topP topK repeatPenalty of
      (max_gen, temp, top_p_val, top_k_val, rep_pen) \<Rightarrow>
        \<exists>j. filter is_sampling_event (new_events st ?st')
             = concat (replicate j (sampling_pipeline top_k_val top_p_val temp))"
    by simp
next
  show "case draw_next_token e temp' top_p_val' top_k_val' n_vocab c of
      (new_token, c') \<Rightarrow>
        fst (snd (generate_body e m temp' top_p_val' top_k_val' n_vocab n_cur generated c st)) =
          (if new_token = llama_token_eos e m then generated else generated @ [new_token]) \<and>
        take 5 (new_events st
                  (snd (snd (snd (generate_body e m temp' top_p_val' top_k_val' n_vocab n_cur generated c st)))))
          = EvGetLogits # sampling_pipeline top_k_val' top_p_val' temp'"
    by (simp add: generate_body_eq Let_def split_def new_events_def sampling_pipeline_def)
qed

subsection \<open>The repeat penalty\<close>

text \<open>
  C4. \<^verbatim>\<open>rep_pen\<close> is resolved like the other parameters, and nothing reads it: two calls
  of \<^verbatim>\<open>generate\<close> that differ in \<^verbatim>\<open>repeatPenalty\<close> only return the same string and
  leave the same state, and the string is the same again when the configured default of
  the repeat penalty differs too.
\<close>

theorem repeat_penalty_not_applied:
  "generate e stops st prompt maxTokens temperature' topP topK repeatPenalty =
   generate e stops st prompt maxTokens temperature' topP topK repeatPenalty' \<and>
   fst (generate e stops (st\<lparr>g_params := (g_params st)\<lparr>repeat_penalty := r\<rparr>\<rparr>) prompt maxTokens
          temperature' topP topK repeatPenalty) =
   fst (generate e stops st prompt maxTokens temperature' topP topK repeatPenalty') \<and>
   snd (snd (snd (snd (generation_parameters params maxTokens temperature' topP topK repeatPenalty)))) =
     (if gt_zero repeatPenalty then repeatPenalty else repeat_penalty params)"
proof (intro conjI)
  have "generate e stops st prompt maxTokens temperature' topP topK rp =
        generate e stops st prompt maxTokens temperature' topP topK rp'" for rp rp'
    unfolding generate_def generation_parameters_def Let_def split_def
    by (simp cong: option.case_cong if_cong)
  then show "generate e stops st prompt maxTokens temperature' topP topK repeatPenalty =
             generate e stops st prompt maxTokens temperature' topP topK repeatPenalty'" .
next
  show "fst (generate e stops (st\<lparr>g_params := (g_params st)\<lparr>repeat_penalty := r\<rparr>\<rparr>) prompt maxTokens
          temperature' topP topK repeatPenalty) =
        fst (generate e stops st prompt maxTokens temperature' topP topK repeatPenalty')"
    by (rule generate_text_repeat_penalty_default)
next
  show "snd (snd (snd (snd (generation_parameters params maxTokens temperature' topP topK repeatPenalty)))) =
     (if gt_zero repeatPenalty then repeatPenalty else repeat_penalty params)"
    by (simp add: generation_parameters_def Let_def)
qed

subsection \<open>Prompts that are too long\<close>

text \<open>
  C5, as the spec states it, fails on a prompt that tokenizes to nothing when the context
  holds fewer than 4 tokens: the count 0 exceeds the context size minus 4, and the
  answer is the tokenization error.
\<close>

theorem prompt_too_long_counterexample:
  "g_model tiny_session = Some 7 \<and> g_ctx tiny_session = Some 0 \<and>
   llama_n_ctx tiny_engine 0 - 4
     < int (length (vocab_tokenize tiny_engine 7 (jstring_to_string (Some '''')) True)) \<and>
   fst (generate tiny_engine never_stops tiny_session (Some '''') 0 NaN NaN 0 NaN)
     = ''[Error: Failed to tokenize]'' \<and>
   fst (generate tiny_engine never_stops tiny_session (Some '''') 0 NaN NaN 0 NaN)
     \<noteq> ''[Error: Prompt too long]''"
proof -
  have toks: "vocab_tokenize tiny_engine 7 (jstring_to_string (Some '''')) True = []"
    by (simp add: jstring_to_string_def)
  from generate_tokenize_failed [of tiny_session 7 0 tiny_engine "Some ''''", OF _ _ toks]
  have "fst (generate tiny_engine never_stops tiny_session (Some '''') 0 NaN NaN 0 NaN)
     = ''[Error: Failed to tokenize]''"
    by simp
  with toks show ?thesis by simp
qed

text \<open>
  C5, amended. With a model loaded and a prompt whose token count exceeds the context
  size minus 4, \<^verbatim>\<open>generate\<close> returns the prompt-too-long error when the token sequence
  is not empty, the tokenization error when it is; in both cases the run has no decode
  and does not clear the cache.
\<close>

theorem prompt_too_long_rejected:
  assumes "g_model st = Some m" and "g_ctx st = Some c"
    and "llama_n_ctx e c - 4 < int (length (vocab_tokenize e m (jstring_to_string prompt) True))"
  shows "fst (generate e stops st prompt maxTokens temperature' topP topK repeatPenalty) =
           (if vocab_tokenize e m (jstring_to_string prompt) True = []
            then ''[Error: Failed to tokenize]'' else ''[Error: Prompt too long]'') \<and>
         (\<forall>b. EvDecode b \<notin> set (new_events st
                 (snd (generate e stops st prompt maxTokens temperature' topP topK repeatPenalty)))) \<and>
         EvKvCacheClear \<notin> set (new_events st
                 (snd (generate e stops st prompt maxTokens temperature' topP topK repeatPenalty)))"
proof -
  let ?g = "generate e stops st prompt maxTokens temperature' topP topK repeatPenalty"
  have answer: "fst ?g = (if vocab_tokenize e m (jstring_to_string prompt) True = []
            then ''[Error: Failed to tokenize]'' else ''[Error: Prompt too long]'')"
    using generate_tokenize_failed[OF assms(1,2), of e prompt stops]
      generate_too_long[OF assms(1,2) _ assms(3), of stops]
    by (cases "vocab_tokenize e m (jstring_to_string prompt) True = []") simp_all
  from generate_early_exit[OF assms(1,2), of e prompt stops] assms(3) obtain rest where
    st': "snd ?g = st\<lparr>g_is_generating := False, g_stop_requested := False,
                trace := trace st @ [EvSetGenerating True, EvSetStopRequested False]
                         @ tokenize_events e m (jstring_to_string prompt) True @ rest\<rparr>"
    and rest: "rest = [EvSetGenerating False] \<or> rest = [EvNCtx, EvSetGenerating False]"
    by blast
  have "new_events st (snd ?g) = [EvSetGenerating True, EvSetStopRequested False]
                         @ tokenize_events e m (jstring_to_string prompt) True @ rest"
    by (rule new_events_append) (simp add: st')
  with rest answer show ?thesis
    by (auto simp: tokenize_events_no_decode)
qed

theorem prompt_too_long_rejected_witness:
  "g_model loaded_session = Some 7 \<and> g_ctx loaded_session = Some 0 \<and>
   llama_n_ctx small_engine 0 - 4
     < int (length (vocab_tokenize small_engine 7 (jstring_to_string (Some ''123456789'')) True)) \<and>
   fst (generate small_engine never_stops loaded_session (Some ''123456789'') 0 NaN NaN 0 NaN)
     = ''[Error: Prompt too long]'' \<and>
   (\<forall>b. EvDecode b \<notin> set (new_events loaded_session
           (snd (generate small_engine never_stops loaded_session (Some ''123456789'') 0 NaN NaN 0 NaN))))"
proof -
  have long: "llama_n_ctx small_engine 0 - 4
     < int (length (vocab_tokenize small_engine 7 (jstring_to_string (Some ''123456789'')) True))"
    by (simp add: jstring_to_string_def)
  from prompt_too_long_rejected [of loaded_session 7 0 small_engine "Some ''123456789''", OF _ _ long,
      of never_stops 0 NaN NaN 0 NaN] long
  show ?thesis
    by (simp add: jstring_to_string_def)
qed

subsection \<open>A decode that fails during generation\<close>




subsection \<open>The prompt batch\<close>

text \<open>
  C7. The prompt batch holds the \<open>n\<close> prompt tokens in order at the positions \<open>0\<close> to
  \<open>n - 1\<close>, and asks for output scores at the last position only. \<^verbatim>\<open>generate\<close> and
  \<^verbatim>\<open>getEmbedding\<close> submit this batch in one decode, the first of the call, right after
  the cache is cleared.
\<close>

theorem prefill_batch_submitted:
  "n_tokens (prefill_batch tokens) = length tokens \<and>
   token (prefill_batch tokens) = tokens \<and>
   pos (prefill_batch tokens) = map int [0..<length tokens] \<and>
   logits (prefill_batch tokens) = map (\<lambda>i. i = length tokens - 1) [0..<length tokens] \<and>
   (g_model st = Some m \<and> g_ctx st = Some c \<and>
    vocab_tokenize e m (jstring_to_string prompt) True = tokens \<and> tokens \<noteq> [] \<and>
    int (length tokens) \<le> llama_n_ctx e c - 4 \<longrightarrow>
      (\<exists>evs. new_events st (snd (generate e stops st prompt maxTokens temperature' topP topK repeatPenalty))
         = [EvSetGenerating True, EvSetStopRequested False]
           @ tokenize_events e m (jstring_to_string prompt) True
           @ [EvNCtx, EvKvCacheClear, EvDecode (prefill_batch tokens)] @ evs)) \<and>
   (g_model st = Some m \<and> g_ctx st = Some c \<and>
    vocab_tokenize e m (jstring_to_string prompt) True = tokens \<and> tokens \<noteq> [] \<longrightarrow>
      (\<exists>evs. new_events st (snd (getEmbedding e fl new_array_ok st prompt))
         = tokenize_events e m (jstring_to_string prompt) True
           @ [EvKvCacheClear, EvDecode (prefill_batch tokens)] @ evs))"
proof (intro conjI impI)
  show "n_tokens (prefill_batch tokens) = length tokens" "token (prefill_batch tokens) = tokens"
    "pos (prefill_batch tokens) = map int [0..<length tokens]"
    "logits (prefill_batch tokens) = map (\<lambda>i. i = length tokens - 1) [0..<length tokens]"
    by (simp_all add: prefill_batch_eq)
next
  assume h: "g_model st = Some m \<and> g_ctx st = Some c \<and>
    vocab_tokenize e m (jstring_to_string prompt) True = tokens \<and> tokens \<noteq> [] \<and>
    int (length tokens) \<le> llama_n_ctx e c - 4"
  obtain max_gen temp top_p_val top_k_val rep_pen where params:
    "generation_parameters (g_params st) maxTokens temperature' topP topK repeatPenalty
       = (max_gen, temp, top_p_val, top_k_val, rep_pen)"
    by (rule generation_parameters_cases)
  from h generate_after_prefill[OF _ _ _ _ _ params, of m c e prompt tokens stops]
  obtain evs where "trace (snd (generate e stops st prompt maxTokens temperature' topP topK repeatPenalty))
            = trace st @ ([EvSetGenerating True, EvSetStopRequested False]
                @ tokenize_events e m (jstring_to_string prompt) True
                @ [EvNCtx, EvKvCacheClear, EvDecode (prefill_batch tokens)] @ evs)"
    by auto
  then show "\<exists>evs. new_events st (snd (generate e stops st prompt maxTokens temperature' topP topK repeatPenalty))
         = [EvSetGenerating True, EvSetStopRequested False]
           @ tokenize_events e m (jstring_to_string prompt) True
           @ [EvNCtx, EvKvCacheClear, EvDecode (prefill_batch tokens)] @ evs"
    using new_events_append by blast
next
  assume h: "g_model st = Some m \<and> g_ctx st = Some c \<and>
    vocab_tokenize e m (jstring_to_string prompt) True = tokens \<and> tokens \<noteq> []"
  with getEmbedding_after_tokenize[of st m c e prompt tokens fl new_array_ok]
  obtain evs where "trace (snd (getEmbedding e fl new_array_ok st prompt))
            = trace st @ (tokenize_events e m (jstring_to_string prompt) True
                @ [EvKvCacheClear, EvDecode (prefill_batch tokens)] @ evs)"
    by auto
  then show "\<exists>evs. new_events st (snd (getEmbedding e fl new_array_ok st prompt))
         = tokenize_events e m (jstring_to_string prompt) True
           @ [EvKvCacheClear, EvDecode (prefill_batch tokens)] @ evs"
    using new_events_append by blast
qed

theorem prefill_batch_submitted_witness:
  "g_model loaded_session = Some 7 \<and> g_ctx loaded_session = Some 0 \<and>
   vocab_tokenize small_engine 7 (jstring_to_string (Some ''Hi'')) True = [1, 72, 105] \<and>
   int (length [1, 72, 105 :: int]) \<le> llama_n_ctx small_engine 0 - 4 \<and>
   token (prefill_batch [1, 72, 105]) = [1, 72, 105] \<and>
   pos (prefill_batch [1, 72, 105]) = [0, 1, 2] \<and>
   logits (prefill_batch [1, 72, 105]) = [False, False, True] \<and>
   (\<exists>evs. new_events loaded_session
             (snd (generate small_engine never_stops loaded_session (Some ''Hi'') 2 NaN NaN 0 NaN))
         = [EvSetGenerating True, EvSetStopRequested False]
           @ tokenize_events small_engine 7 (jstring_to_string (Some ''Hi'')) True
           @ [EvNCtx, EvKvCacheClear, EvDecode (prefill_batch [1, 72, 105])] @ evs) \<and>
   (\<forall>fl. \<exists>evs. new_events loaded_session (snd (getEmbedding small_engine fl True loaded_session (Some ''Hi'')))
         = tokenize_events small_engine 7 (jstring_to_string (Some ''Hi'')) True
           @ [EvKvCacheClear, EvDecode (prefill_batch [1, 72, 105])] @ evs)"
proof -
  have toks: "vocab_tokenize small_engine 7 (jstring_to_string (Some ''Hi'')) True = [1, 72, 105]"
    by (simp add: jstring_to_string_def)
  have fits: "int (length [1, 72, 105 :: int]) \<le> llama_n_ctx small_engine 0 - 4"
    by simp
  have "token (prefill_batch [1, 72, 105]) = [1, 72, 105] \<and>
   pos (prefill_batch [1, 72, 105]) = [0, 1, 2] \<and>
   logits (prefill_batch [1, 72, 105]) = [False, False, True] \<and>
   (\<exists>evs. new_events loaded_session
             (snd (generate small_engine never_stops loaded_session (Some ''Hi'') 2 NaN NaN 0 NaN))
         = [EvSetGenerating True, EvSetStopRequested False]
           @ tokenize_events small_engine 7 (jstring_to_string (Some ''Hi'')) True
           @ [EvNCtx, EvKvCacheClear, EvDecode (prefill_batch [1, 72, 105])] @ evs) \<and>
   (\<exists>evs. new_events loaded_session (snd (getEmbedding small_engine fl True loaded_session (Some ''Hi'')))
         = tokenize_events small_engine 7 (jstring_to_string (Some ''Hi'')) True
           @ [EvKvCacheClear, EvDecode (prefill_batch [1, 72, 105])] @ evs)" for fl
    using prefill_batch_submitted [of "[1, 72, 105]" loaded_session 7 0 small_engine "Some ''Hi''"
      never_stops 2 NaN NaN 0 NaN fl True] toks fits
    by (simp add: upt_rec)
  with toks fits show ?thesis
    by simp
qed

subsection \<open>Sentinels and defaults\<close>

text \<open>
  C8, as the spec states it, fails for the temperature: the supplied value 0 is not
  positive, and it is used as given, not replaced by the configured default. The run of
  the small engine hands the temperature 0 to the engine.
\<close>

theorem temperature_zero_counterexample:
  "fst (snd (generation_parameters default_GenerationParams 0 (Finite 0) (Finite 0) 0 (Finite 0)))
     = Finite 0 \<and>
   fst (snd (generation_parameters default_GenerationParams 0 (Finite 0) (Finite 0) 0 (Finite 0)))
     \<noteq> temperature default_GenerationParams \<and>
   EvSampleTemp (Finite 0) \<in> set (new_events loaded_session
     (snd (generate small_engine never_stops loaded_session (Some ''Hi'') 1 (Finite 0) (Finite 0) 0 (Finite 0)))) \<and>
   EvSampleTemp (temperature default_GenerationParams) \<notin> set (new_events loaded_session
     (snd (generate small_engine never_stops loaded_session (Some ''Hi'') 1 (Finite 0) (Finite 0) 0 (Finite 0))))"
proof -
  let ?g = "generate small_engine never_stops loaded_session (Some ''Hi'') 1 (Finite 0) (Finite 0) 0 (Finite 0)"
  let ?p = "Finite (7549747 / 8388608)" and ?rp = "Finite (9227469 / 8388608)"
  let ?entry = "loop_entry small_engine 7 loaded_session (jstring_to_string (Some ''Hi'')) 1"
  let ?st' = "?entry\<lparr>trace := trace ?entry @ EvGetLogits # sampling_pipeline 40 ?p (Finite 0)
                         @ [EvTokenEos, EvDecode (next_token_batch 101 (int (length [1, 72, 105 :: int])))]\<rparr>"
  have toks: "vocab_tokenize small_engine 7 (jstring_to_string (Some ''Hi'')) True = [1, 72, 105]"
    by (simp add: jstring_to_string_def)
  have fits: "int (length [1, 72, 105 :: int]) \<le> llama_n_ctx small_engine 0 - 4"
    by simp
  have dec: "llama_decode small_engine (llama_kv_cache_clear small_engine 0) (prefill_batch [1, 72, 105]) = (0, 1)"
    by simp
  have params: "generation_parameters (g_params loaded_session) 1 (Finite 0) (Finite 0) 0 (Finite 0)
                  = (1, Finite 0, ?p, 40, ?rp)"
    by (simp add: generation_parameters_def default_GenerationParams_def)
  have loop: "generate_loop small_engine 7 never_stops 1 (Finite 0) ?p 40 (llama_n_vocab small_engine 7) 0
                (int (length [1, 72, 105 :: int])) [] 1 ?entry = ([101], 2, ?st')"
    by (rule small_engine_one_pass) (simp add: loop_entry_def)
  let ?fin = "(emit (EvSetGenerating False) ?st')\<lparr>g_is_generating := False, g_ctx := Some 2\<rparr>"
  have "?g = (string_to_jstring (fst (detokenize small_engine ?fin [101])),
              snd (detokenize small_engine ?fin [101]))"
    by (rule generate_loop_reached[OF _ _ toks _ fits dec params loop]) simp_all
  then have gen: "snd ?g = snd (detokenize small_engine ?fin [101])"
    by simp
  have "snd ?g = ?fin\<lparr>trace := trace ?fin @ map EvTokenToPiece [101]\<rparr>"
    unfolding gen by (rule detokenize_snd) (simp add: loop_entry_def)
  then have "trace (snd ?g) = trace loaded_session @
      ([EvSetGenerating True, EvSetStopRequested False]
       @ tokenize_events small_engine 7 (jstring_to_string (Some ''Hi'')) True
       @ [EvNCtx, EvKvCacheClear, EvDecode (prefill_batch [1, 72, 105]), EvNVocab]
       @ EvGetLogits # sampling_pipeline 40 ?p (Finite 0)
       @ [EvTokenEos, EvDecode (next_token_batch 101 3), EvSetGenerating False, EvTokenToPiece 101])"
    by (simp add: loop_entry_def jstring_to_string_def)
  from new_events_append[OF this]
  have "EvSampleTemp (Finite 0) \<in> set (new_events loaded_session (snd ?g))"
    and "EvSampleTemp (temperature default_GenerationParams) \<notin> set (new_events loaded_session (snd ?g))"
    by (simp_all add: sampling_pipeline_def tokenize_events_def Let_def default_GenerationParams_def)
  then show ?thesis
    by (simp add: generation_parameters_def default_GenerationParams_def)
qed

text \<open>
  C8, amended. A supplied \<^verbatim>\<open>maxTokens\<close>, \<^verbatim>\<open>topP\<close>, \<^verbatim>\<open>topK\<close> or \<^verbatim>\<open>repeatPenalty\<close>
  resolves to the configured default unless it is positive, and a positive one is used as
  given; a supplied temperature resolves to the default unless it is zero or positive,
  and is used as given when it is. For the floats, plus infinity is positive and used as
  given, minus infinity is negative, and a NaN, which is neither positive nor zero,
  resolves to the default in every field. \<^verbatim>\<open>setDefaultParams\<close> resolves its arguments the
  same way, so the configured defaults, and with them the resolved values, never switch
  a mechanism off.
\<close>

theorem generation_parameters_resolution:
  "generation_parameters params maxTokens temperature' topP topK repeatPenalty =
     (if 0 < maxTokens then maxTokens else max_tokens params,
      (case temperature' of
         Finite r \<Rightarrow> if 0 \<le> r then Finite r else temperature params
       | PosInf \<Rightarrow> PosInf
       | NegInf \<Rightarrow> temperature params
       | NaN \<Rightarrow> temperature params),
      (case topP of
         Finite r \<Rightarrow> if 0 < r then Finite r else top_p params
       | PosInf \<Rightarrow> PosInf
       | NegInf \<Rightarrow> top_p params
       | NaN \<Rightarrow> top_p params),
      if 0 < topK then topK else top_k params,
      (case repeatPenalty of
         Finite r \<Rightarrow> if 0 < r then Finite r else repeat_penalty params
       | PosInf \<Rightarrow> PosInf
       | NegInf \<Rightarrow> repeat_penalty params
       | NaN \<Rightarrow> repeat_penalty params)) \<and>
   generation_parameters params maxTokens (Finite t) (Finite p) topK (Finite rp) =
     (if 0 < maxTokens then maxTokens else max_tokens params,
      if 0 \<le> t then Finite t else temperature params,
      if 0 < p then Finite p else top_p params,
      if 0 < topK then topK else top_k params,
      if 0 < rp then Finite rp else repeat_penalty params) \<and>
   generation_parameters params 0 NaN NaN 0 NaN = defaults_of params \<and>
   defaults_of (g_params (setDefaultParams st maxTokens temperature' topP topK repeatPenalty)) =
     generation_parameters (g_params st) maxTokens temperature' topP topK repeatPenalty \<and>
   params_enabled (defaults_of default_GenerationParams) \<and>
   (params_enabled (defaults_of params) \<longrightarrow>
      params_enabled (generation_parameters params maxTokens temperature' topP topK repeatPenalty))"
proof (intro conjI)
  show "generation_parameters params maxTokens temperature' topP topK repeatPenalty =
     (if 0 < maxTokens then maxTokens else max_tokens params,
      (case temperature' of
         Finite r \<Rightarrow> if 0 \<le> r then Finite r else temperature params
       | PosInf \<Rightarrow> PosInf
       | NegInf \<Rightarrow> temperature params
       | NaN \<Rightarrow> temperature params),
      (case topP of
         Finite r \<Rightarrow> if 0 < r then Finite r else top_p params
       | PosInf \<Rightarrow> PosInf
       | NegInf \<Rightarrow> top_p params
       | NaN \<Rightarrow> top_p params),
      if 0 < topK then topK else top_k params,
      (case repeatPenalty of
         Finite r \<Rightarrow> if 0 < r then Finite r else repeat_penalty params
       | PosInf \<Rightarrow> PosInf
       | NegInf \<Rightarrow> repeat_penalty params
       | NaN \<Rightarrow> repeat_penalty params))"
    by (cases temperature'; cases topP; cases repeatPenalty)
       (simp_all add: generation_parameters_def Let_def)
qed (simp_all add: generation_parameters_def defaults_of_def setDefaultParams_def params_enabled_def
      default_GenerationParams_def Let_def)

theorem generation_parameters_resolution_witness:
  "params_enabled (defaults_of default_GenerationParams) \<and>
   params_enabled (generation_parameters default_GenerationParams 0 (Finite 0) NaN (- 1) NegInf) \<and>
   generation_parameters default_GenerationParams 0 (Finite 0) (Finite (1 / 2)) (- 1) (Finite (- 1)) =
     (max_tokens default_GenerationParams, Finite 0, Finite (1 / 2), top_k default_GenerationParams,
      repeat_penalty default_GenerationParams) \<and>
   generation_parameters default_GenerationParams 0 (Finite 0) NaN (- 1) NegInf =
     (max_tokens default_GenerationParams, Finite 0, top_p default_GenerationParams,
      top_k default_GenerationParams, repeat_penalty default_GenerationParams) \<and>
   generation_parameters default_GenerationParams 7 NaN PosInf 3 PosInf =
     (7, temperature default_GenerationParams, PosInf, 3, PosInf)"
proof -
  note r = generation_parameters_resolution
      [of default_GenerationParams 0 "Finite 0" NaN "- 1" NegInf 0 "1 / 2" "- 1" initial_session]
  note r' = generation_parameters_resolution
      [of default_GenerationParams 7 NaN PosInf 3 PosInf 0 0 0 initial_session]
  from r have a: "params_enabled (defaults_of default_GenerationParams)"
    by blast
  from r a have b: "params_enabled (generation_parameters default_GenerationParams 0 (Finite 0) NaN (- 1) NegInf)"
    by blast
  from r [THEN conjunct2, THEN conjunct1]
  have c: "generation_parameters default_GenerationParams 0 (Finite 0) (Finite (1 / 2)) (- 1) (Finite (- 1)) =
     (max_tokens default_GenerationParams, Finite 0, Finite (1 / 2), top_k default_GenerationParams,
      repeat_penalty default_GenerationParams)"
    by simp
  from r [THEN conjunct1]
  have d: "generation_parameters default_GenerationParams 0 (Finite 0) NaN (- 1) NegInf =
     (max_tokens default_GenerationParams, Finite 0, top_p default_GenerationParams,
      top_k default_GenerationParams, repeat_penalty default_GenerationParams)"
    by simp
  from r' [THEN conjunct1]
  have e: "generation_parameters default_GenerationParams 7 NaN PosInf 3 PosInf =
     (7, temperature default_GenerationParams, PosInf, 3, PosInf)"
    by simp
  from a b c d e show ?thesis by blast
qed

subsection \<open>A stop request before the first token\<close>

text \<open>
  C9. When a stop request arrives after \<^verbatim>\<open>generate\<close> cleared the flag and before the
  first check of the loop, the loop generates no token and samples nothing, and
  \<^verbatim>\<open>generate\<close> returns the empty text of an empty token sequence.
\<close>

theorem stop_before_first_token:
  assumes "g_model st = Some m" and "g_ctx st = Some c"
    and "vocab_tokenize e m (jstring_to_string prompt) True = tokens" and "tokens \<noteq> []"
    and "int (length tokens) \<le> llama_n_ctx e c - 4"
    and "llama_decode e (llama_kv_cache_clear e c) (prefill_batch tokens) = (0, c')"
    and "stops 0"
  shows "fst (generate e stops st prompt maxTokens temperature' topP topK repeatPenalty)
           = fst (detokenize e st []) \<and>
         fst (generate e stops st prompt maxTokens temperature' topP topK repeatPenalty) = [] \<and>
         fst (generate_loop e m stops max_gen temp top_p_val top_k_val n_vocab 0 n_cur [] c'' st'') = [] \<and>
         filter is_sampling_event (new_events st
           (snd (generate e stops st prompt maxTokens temperature' topP topK repeatPenalty))) = []"
proof -
  let ?g = "generate e stops st prompt maxTokens temperature' topP topK repeatPenalty"
  let ?entry = "loop_entry e m st (jstring_to_string prompt) c'"
  obtain mg tmp tp tk rp where params:
    "generation_parameters (g_params st) maxTokens temperature' topP topK repeatPenalty
       = (mg, tmp, tp, tk, rp)"
    by (rule generation_parameters_cases)
  define st' where "st' = (if 0 < mg then stopGeneration ?entry else ?entry)"
  have loop: "generate_loop e m stops mg tmp tp tk (llama_n_vocab e m) 0 (int (length tokens)) [] c' ?entry
                = ([], c', st')"
    using assms(7) by (cases "0 < mg") (simp_all add: generate_loop_stop_now generate_loop_done st'_def)
  have gm: "g_model st' = Some m" and tr: "trace st' = trace ?entry @ (if 0 < mg then [EvSetStopRequested True] else [])"
    using assms(1) by (simp_all add: st'_def loop_entry_def)
  let ?fin = "(emit (EvSetGenerating False) st')\<lparr>g_is_generating := False, g_ctx := Some c'\<rparr>"
  note reached = generate_loop_reached[OF assms(1-6) params loop]
  have gen: "snd ?g = snd (detokenize e ?fin [])"
    by (simp add: reached)
  have "fst ?g = []"
    by (simp add: reached detokenize_Nil)
  moreover from this have "fst ?g = fst (detokenize e st [])"
    by (simp add: detokenize_Nil)
  moreover have "fst (generate_loop e m stops max_gen temp top_p_val top_k_val n_vocab 0 n_cur [] c'' st'') = []"
    using assms(7) by (rule generate_loop_first_check)
  moreover have "filter is_sampling_event (new_events st (snd ?g)) = []"
  proof -
    have "snd ?g = ?fin\<lparr>trace := trace ?fin @ map EvTokenToPiece []\<rparr>"
      unfolding gen by (rule detokenize_snd) (simp add: gm)
    then have "trace (snd ?g) = trace st @ ([EvSetGenerating True, EvSetStopRequested False]
                 @ tokenize_events e m (jstring_to_string prompt) True
                 @ [EvNCtx, EvKvCacheClear, EvDecode (prefill_batch tokens), EvNVocab]
                 @ (if 0 < mg then [EvSetStopRequested True] else []) @ [EvSetGenerating False])"
      by (simp add: tr loop_entry_def assms(3))
    from new_events_append[OF this] show ?thesis
      by (simp add: tokenize_events_no_decode)
  qed
  ultimately show ?thesis by blast
qed

theorem stop_before_first_token_witness:
  "g_model loaded_session = Some 7 \<and> g_ctx loaded_session = Some 0 \<and>
   vocab_tokenize small_engine 7 (jstring_to_string (Some ''Hi'')) True = [1, 72, 105] \<and>
   int (length [1, 72, 105 :: int]) \<le> llama_n_ctx small_engine 0 - 4 \<and>
   llama_decode small_engine (llama_kv_cache_clear small_engine 0) (prefill_batch [1, 72, 105]) = (0, 1) \<and>
   stops_at_once 0 \<and>
   fst (generate small_engine stops_at_once loaded_session (Some ''Hi'') 5 NaN NaN 0 NaN) = [] \<and>
   filter is_sampling_event (new_events loaded_session
     (snd (generate small_engine stops_at_once loaded_session (Some ''Hi'') 5 NaN NaN 0 NaN))) = []"
proof -
  have toks: "vocab_tokenize small_engine 7 (jstring_to_string (Some ''Hi'')) True = [1, 72, 105]"
    by (simp add: jstring_to_string_def)
  have fits: "int (length [1, 72, 105 :: int]) \<le> llama_n_ctx small_engine 0 - 4"
    by simp
  have dec: "llama_decode small_engine (llama_kv_cache_clear small_engine 0) (prefill_batch [1, 72, 105]) = (0, 1)"
    by simp
  have stop: "stops_at_once 0"
    by (simp add: stops_at_once_def)
  from stop_before_first_token [of loaded_session 7 0 small_engine "Some ''Hi''" "[1, 72, 105]" 1
      stops_at_once, OF _ _ toks _ fits dec stop, of 5 NaN NaN 0 NaN]
    toks fits dec stop
  show ?thesis by (simp add: detokenize_Nil)
qed

subsection \<open>Validation failures leave the context alone\<close>

text \<open>
  C10. When the model is not loaded, the prompt tokenizes to nothing or the prompt is too
  long, \<^verbatim>\<open>generate\<close> returns one of its three validation errors; the run clears no
  cache, submits no batch and samples nothing, and both handles and the state of the
  context are what they were.
\<close>

theorem generate_validation_failure_keeps_context:
  assumes "g_model st = None \<or> g_ctx st = None \<or>
           (\<exists>m c. g_model st = Some m \<and> g_ctx st = Some c \<and>
              (vocab_tokenize e m (jstring_to_string prompt) True = [] \<or>
               llama_n_ctx e c - 4 < int (length (vocab_tokenize e m (jstring_to_string prompt) True))))"
  shows "g_ctx (snd (generate e stops st prompt maxTokens temperature' topP topK repeatPenalty)) = g_ctx st \<and>
         g_model (snd (generate e stops st prompt maxTokens temperature' topP topK repeatPenalty)) = g_model st \<and>
         EvKvCacheClear \<notin> set (new_events st
                 (snd (generate e stops st prompt maxTokens temperature' topP topK repeatPenalty))) \<and>
         (\<forall>b. EvDecode b \<notin> set (new_events st
                 (snd (generate e stops st prompt maxTokens temperature' topP topK repeatPenalty)))) \<and>
         filter is_sampling_event (new_events st
                 (snd (generate e stops st prompt maxTokens temperature' topP topK repeatPenalty))) = [] \<and>
         fst (generate e stops st prompt maxTokens temperature' topP topK repeatPenalty)
           \<in> {''[Error: Model not loaded]'', ''[Error: Failed to tokenize]'', ''[Error: Prompt too long]''}"
proof (cases "g_model st = None \<or> g_ctx st = None")
  case True
  then have "generate e stops st prompt maxTokens temperature' topP topK repeatPenalty
               = (''[Error: Model not loaded]'', st)"
    by (rule generate_not_loaded)
  then show ?thesis by (simp add: new_events_def)
next
  case False
  with assms obtain m c where loaded: "g_model st = Some m" "g_ctx st = Some c"
    and bad: "vocab_tokenize e m (jstring_to_string prompt) True = [] \<or>
               llama_n_ctx e c - 4 < int (length (vocab_tokenize e m (jstring_to_string prompt) True))"
    by auto
  let ?g = "generate e stops st prompt maxTokens temperature' topP topK repeatPenalty"
  have answer: "fst ?g = (if vocab_tokenize e m (jstring_to_string prompt) True = []
            then ''[Error: Failed to tokenize]'' else ''[Error: Prompt too long]'')"
    using generate_tokenize_failed[OF loaded, of e prompt stops]
      generate_too_long[OF loaded, of e prompt stops] bad
    by (cases "vocab_tokenize e m (jstring_to_string prompt) True = []") simp_all
  from generate_early_exit[OF loaded bad] obtain rest where
    st': "snd ?g = st\<lparr>g_is_generating := False, g_stop_requested := False,
                trace := trace st @ [EvSetGenerating True, EvSetStopRequested False]
                         @ tokenize_events e m (jstring_to_string prompt) True @ rest\<rparr>"
    and rest: "rest = [EvSetGenerating False] \<or> rest = [EvNCtx, EvSetGenerating False]"
    by blast
  have "new_events st (snd ?g) = [EvSetGenerating True, EvSetStopRequested False]
                         @ tokenize_events e m (jstring_to_string prompt) True @ rest"
    by (rule new_events_append) (simp add: st')
  with rest answer st' show ?thesis
    by (auto simp: tokenize_events_no_decode)
qed

theorem generate_validation_failure_keeps_context_witness:
  "g_model (initial_session :: (nat, nat) session) = None \<and>
   generate small_engine never_stops initial_session (Some ''Hi'') 0 NaN NaN 0 NaN
     = (''[Error: Model not loaded]'', initial_session) \<and>
   g_model loaded_session = Some 7 \<and> g_ctx loaded_session = Some 0 \<and>
   llama_n_ctx small_engine 0 - 4
     < int (length (vocab_tokenize small_engine 7 (jstring_to_string (Some ''123456789'')) True)) \<and>
   g_ctx (snd (generate small_engine never_stops loaded_session (Some ''123456789'') 0 NaN NaN 0 NaN))
     = Some 0 \<and>
   EvKvCacheClear \<notin> set (new_events loaded_session
      (snd (generate small_engine never_stops loaded_session (Some ''123456789'') 0 NaN NaN 0 NaN))) \<and>
   vocab_tokenize tiny_engine 7 (jstring_to_string (Some '''')) True = [] \<and>
   g_ctx (snd (generate tiny_engine never_stops tiny_session (Some '''') 0 NaN NaN 0 NaN)) = Some 0"
proof -
  have long: "llama_n_ctx small_engine 0 - 4
     < int (length (vocab_tokenize small_engine 7 (jstring_to_string (Some ''123456789'')) True))"
    by (simp add: jstring_to_string_def)
  have none: "vocab_tokenize tiny_engine 7 (jstring_to_string (Some '''')) True = []"
    by (simp add: jstring_to_string_def)
  have a: "g_model (initial_session :: (nat, nat) session) = None"
    by (simp add: initial_session_def)
  note b = generate_validation_failure_keeps_context
      [of loaded_session small_engine "Some ''123456789''" never_stops 0 NaN NaN 0 NaN]
  note c = generate_validation_failure_keeps_context
      [of tiny_session tiny_engine "Some ''''" never_stops 0 NaN NaN 0 NaN]
  from a b c long none show ?thesis
    by (simp add: generate_not_loaded)
qed

end
